theory Spec2Isabelle
  imports Complex_Main "HOL-Library.Sublist" "HOL-Library.Multiset" "HOL-Library.Product_Lexorder"
begin

section \<open>Data model: decoded JSON documents and Python primitives\<close>

text \<open>
  The catalog, the transfer-partner table and the card records are whatever
  \<^verbatim>\<open>json.load\<close> returns: nested dicts, lists, strings, numbers, booleans and
  \<^verbatim>\<open>None\<close>. A dict is an association list read with \<open>map_of\<close>; it stands for
  a Python dict, whose keys are distinct, and is iterated in list order. An integer
  literal is \<open>JInt\<close>. A literal with a fraction or an exponent is a float: \<open>JFloat\<close>
  when it is finite, with its exact value, and \<open>JInf\<close> or \<open>JNegInf\<close> when it is too
  large; \<^verbatim>\<open>json.load\<close> also accepts the literals \<^verbatim>\<open>NaN\<close>, \<^verbatim>\<open>Infinity\<close> and
  \<^verbatim>\<open>-Infinity\<close>, which are \<open>JNaN\<close>, \<open>JInf\<close> and \<open>JNegInf\<close>. Arithmetic on finite
  floats is exact within the range of the floats, and gives an infinity beyond it;
  rounding is outside the model. Strings are lists of characters; case conversion
  and white space follow Python on ASCII text.
\<close>

datatype json =
    JNull
  | JBool bool
  | JInt int
  | JFloat rat
  | JNaN
  | JInf
  | JNegInf
  | JStr string
  | JList "json list"
  | JObj "(string \<times> json) list"

text \<open>The exceptions that the modelled code can raise.\<close>

datatype exn = AttributeError | TypeError | ValueError | KeyError | OverflowError

text \<open>Sequencing of computations that may raise: the first exception wins.\<close>

definition bind :: "exn + 'a \<Rightarrow> ('a \<Rightarrow> exn + 'b) \<Rightarrow> exn + 'b" where
  "bind m f = (case m of Inl e \<Rightarrow> Inl e | Inr x \<Rightarrow> f x)"

text \<open>Python truth value of a decoded JSON value (\<^verbatim>\<open>if x:\<close>).\<close>

fun truthy :: "json \<Rightarrow> bool" where
  "truthy JNull = False"
| "truthy (JBool b) = b"
| "truthy (JInt n) = (n \<noteq> 0)"
| "truthy (JFloat r) = (r \<noteq> 0)"
| "truthy JNaN = True"
| "truthy JInf = True"
| "truthy JNegInf = True"
| "truthy (JStr s) = (s \<noteq> [])"
| "truthy (JList xs) = (xs \<noteq> [])"
| "truthy (JObj kvs) = (kvs \<noteq> [])"

text \<open>\<^verbatim>\<open>d.get(k, default)\<close>: only a dict has the method.\<close>

fun dict_get :: "json \<Rightarrow> string \<Rightarrow> json \<Rightarrow> exn + json" where
  "dict_get (JObj kvs) k d = Inr (case map_of kvs k of None \<Rightarrow> d | Some v \<Rightarrow> v)"
| "dict_get _ k d = Inl AttributeError"

text \<open>\<^verbatim>\<open>d[k]\<close> on the lookup dict built by the resolver.\<close>

definition dict_index :: "('k \<times> 'v) list \<Rightarrow> 'k \<Rightarrow> exn + 'v" where
  "dict_index d k = (case map_of d k of None \<Rightarrow> Inl KeyError | Some v \<Rightarrow> Inr v)"

text \<open>\<^verbatim>\<open>d[k] = v\<close>: a new key goes to the end, an existing key keeps its place
  and takes the new value.\<close>

fun dict_set :: "('k \<times> 'v) list \<Rightarrow> 'k \<Rightarrow> 'v \<Rightarrow> ('k \<times> 'v) list" where
  "dict_set [] k v = [(k, v)]"
| "dict_set ((k', v') # d) k v = (if k' = k then (k, v) # d else (k', v') # dict_set d k v)"

text \<open>\<^verbatim>\<open>for x in v\<close>: a list yields its elements, a dict its keys, a string its
  characters; anything else is not iterable.\<close>

fun py_iter :: "json \<Rightarrow> exn + json list" where
  "py_iter (JList xs) = Inr xs"
| "py_iter (JObj kvs) = Inr (map (\<lambda>kv. JStr (fst kv)) kvs)"
| "py_iter (JStr s) = Inr (map (\<lambda>c. JStr [c]) s)"
| "py_iter _ = Inl TypeError"

text \<open>\<^verbatim>\<open>len(v)\<close>.\<close>

fun py_len :: "json \<Rightarrow> exn + nat" where
  "py_len (JList xs) = Inr (length xs)"
| "py_len (JObj kvs) = Inr (length kvs)"
| "py_len (JStr s) = Inr (length s)"
| "py_len _ = Inl TypeError"

subsection \<open>Strings\<close>

definition lower_char :: "char \<Rightarrow> char" where
  "lower_char c =
     (let n = (of_char c :: nat) in if 65 \<le> n \<and> n \<le> 90 then char_of (n + 32) else c)"

definition lower :: "string \<Rightarrow> string" where
  "lower s = map lower_char s"

text \<open>\<^verbatim>\<open>v.lower()\<close> on a decoded value: only a string has the method.\<close>

fun str_lower :: "json \<Rightarrow> exn + string" where
  "str_lower (JStr s) = Inr (lower s)"
| "str_lower _ = Inl AttributeError"

text \<open>The characters that \<^verbatim>\<open>str.strip()\<close> and \<^verbatim>\<open>str.split()\<close> treat as white
  space (ASCII: tab, line feed, vertical tab, form feed, carriage return, the four
  separators 28 to 31, space).\<close>

definition is_space :: "char \<Rightarrow> bool" where
  "is_space c = (let n = (of_char c :: nat) in (9 \<le> n \<and> n \<le> 13) \<or> (28 \<le> n \<and> n \<le> 32))"

definition strip :: "string \<Rightarrow> string" where
  "strip s = rev (dropWhile is_space (rev (dropWhile is_space s)))"

text \<open>\<^verbatim>\<open>s.split()\<close>: the maximal runs of non-space characters. The first argument
  is the word being read.\<close>

fun split_acc :: "string \<Rightarrow> string \<Rightarrow> string list" where
  "split_acc w [] = (if w = [] then [] else [w])"
| "split_acc w (c # cs) =
     (if is_space c then (if w = [] then split_acc [] cs else w # split_acc [] cs)
      else split_acc (w @ [c]) cs)"

definition split :: "string \<Rightarrow> string list" where
  "split s = split_acc [] s"

text \<open>\<^verbatim>\<open>q in s\<close> on strings: \<open>q\<close> occurs in \<open>s\<close> as a contiguous substring.\<close>

fun contains :: "string \<Rightarrow> string \<Rightarrow> bool" where
  "contains q [] = (q = [])"
| "contains q (c # cs) = (prefix q (c # cs) \<or> contains q cs)"

text \<open>\<^verbatim>\<open>s.replace(a, b)\<close> for single characters.\<close>

definition replace_char :: "char \<Rightarrow> char \<Rightarrow> string \<Rightarrow> string" where
  "replace_char a b s = map (\<lambda>c. if c = a then b else c) s"

text \<open>The key normalisation \<^verbatim>\<open>s.lower().replace(" ", "_").replace("-", "_")\<close>.\<close>

definition normalize_key :: "string \<Rightarrow> string" where
  "normalize_key s = replace_char (CHR ''-'') (CHR ''_'') (replace_char (CHR '' '') (CHR ''_'') (lower s))"

subsection \<open>Sorting\<close>

text \<open>\<^verbatim>\<open>xs.sort(key=f, reverse=True)\<close>: a stable sort into descending key order
  (elements with equal keys keep their order).\<close>

definition sort_reverse :: "('a \<Rightarrow> 'k::{linorder, uminus}) \<Rightarrow> 'a list \<Rightarrow> 'a list" where
  "sort_reverse f xs = sort_key (\<lambda>x. - f x) xs"

subsection \<open>Numbers\<close>

text \<open>\<^verbatim>\<open>isinstance(v, (int, float))\<close>: \<^verbatim>\<open>bool\<close> is a subclass of \<^verbatim>\<open>int\<close>, and NaN and
  the infinities, which \<^verbatim>\<open>json.load\<close> accepts, are floats. A finite float is its exact
  rational value; the rounding of float arithmetic is not modelled.\<close>

fun is_number :: "json \<Rightarrow> bool" where
  "is_number (JBool b) = True"
| "is_number (JInt n) = True"
| "is_number (JFloat r) = True"
| "is_number JNaN = True"
| "is_number JInf = True"
| "is_number JNegInf = True"
| "is_number _ = False"

text \<open>The place of a number other than NaN in the order of the numbers: the pairs are
  ordered lexicographically, so the infinities lie below and above every finite
  value. Python compares an int with a float by their exact values.\<close>

fun num_key :: "json \<Rightarrow> int \<times> rat" where
  "num_key (JBool b) = (0, if b then 1 else 0)"
| "num_key (JInt n) = (0, of_int n)"
| "num_key (JFloat r) = (0, r)"
| "num_key JInf = (1, 0)"
| "num_key JNegInf = (- 1, 0)"
| "num_key _ = (0, 0)"

text \<open>\<^verbatim>\<open>a < b\<close> and \<^verbatim>\<open>a <= b\<close> on numbers: both are false when either side is NaN.\<close>

definition num_lt :: "json \<Rightarrow> json \<Rightarrow> bool" where
  "num_lt a b = (a \<noteq> JNaN \<and> b \<noteq> JNaN \<and> num_key a < num_key b)"

definition num_le :: "json \<Rightarrow> json \<Rightarrow> bool" where
  "num_le a b = (a \<noteq> JNaN \<and> b \<noteq> JNaN \<and> num_key a \<le> num_key b)"

text \<open>The conversion of a number to float that arithmetic with a float operand makes:
  an int of magnitude \<open>2 ^ 1024 - 2 ^ 970\<close> or more raises \<open>OverflowError\<close>.\<close>

definition float_limit :: int where
  "float_limit = 2 ^ 1024 - 2 ^ 970"

fun to_float :: "json \<Rightarrow> exn + json" where
  "to_float (JBool b) = Inr (JFloat (if b then 1 else 0))"
| "to_float (JInt n) =
     (if - float_limit < n \<and> n < float_limit then Inr (JFloat (of_int n)) else Inl OverflowError)"
| "to_float (JFloat r) = Inr (JFloat r)"
| "to_float JNaN = Inr JNaN"
| "to_float JInf = Inr JInf"
| "to_float JNegInf = Inr JNegInf"
| "to_float _ = Inl TypeError"

text \<open>The float that a finite result of float arithmetic is stored as: an infinity when
  the result is beyond the range of the floats, and otherwise the result itself.\<close>

definition as_float :: "rat \<Rightarrow> json" where
  "as_float r =
     (if of_int float_limit \<le> r then JInf
      else if r \<le> - of_int float_limit then JNegInf
      else JFloat r)"

text \<open>The sign of a float that is not NaN.\<close>

fun float_sign :: "json \<Rightarrow> int" where
  "float_sign (JFloat r) = (if r < 0 then - 1 else if r = 0 then 0 else 1)"
| "float_sign JInf = 1"
| "float_sign JNegInf = - 1"
| "float_sign _ = 0"

text \<open>The product of two floats: NaN if either is NaN or if zero meets an infinity,
  an infinity by the signs if either is infinite.\<close>

definition float_mul :: "json \<Rightarrow> json \<Rightarrow> json" where
  "float_mul a b =
     (if a = JNaN \<or> b = JNaN then JNaN
      else
        (case (a, b) of
           (JFloat x, JFloat y) \<Rightarrow> as_float (x * y)
         | _ \<Rightarrow>
             (let s = float_sign a * float_sign b
              in if s = 0 then JNaN else if 0 < s then JInf else JNegInf)))"

text \<open>A float minus a finite constant: NaN and the infinities stay.\<close>

fun float_minus :: "json \<Rightarrow> rat \<Rightarrow> json" where
  "float_minus (JFloat x) c = as_float (x - c)"
| "float_minus a c = a"

subsection \<open>Sorting by a key that may not be ordered\<close>

text \<open>
  \<^verbatim>\<open>xs.sort(key=f, reverse=True)\<close> where the keys are decoded values. The list is
  reversed, sorted stably by Python's less-than and reversed again.
  \<^item> A list of fewer than two items is returned without any comparison.
  \<^item> When all keys are numbers and none is NaN, less-than is a total order on them and the
    result is the stable sort into descending order.
  \<^item> When all keys are numbers, some are NaN, and no item has a key that is less than the
    key of the item after it, the reversed list is one run for the run detection of
    the sort and the list is returned as it is.
  \<^item> In every other case the result depends on the merge strategy of the interpreter,
    or on Python's comparison of values that are not numbers, which raises
    \<open>TypeError\<close> between values of different kinds. It is not modelled; what is known
    is that the sort raises or leaves a permutation of the list. It is the parameter
    \<open>order\<close>: from the keys to \<open>None\<close> for \<open>TypeError\<close>, or to a ranking of the
    positions by which the list is arranged.
\<close>

fun no_ascent :: "('a \<Rightarrow> json) \<Rightarrow> 'a list \<Rightarrow> bool" where
  "no_ascent f (x # y # zs) = (\<not> num_lt (f x) (f y) \<and> no_ascent f (y # zs))"
| "no_ascent f zs = True"

definition arrange :: "(nat \<Rightarrow> nat) \<Rightarrow> 'a list \<Rightarrow> 'a list" where
  "arrange rank xs = map snd (sort_key fst (zip (map rank [0..<length xs]) xs))"

definition list_sort_reverse ::
    "(json list \<Rightarrow> (nat \<Rightarrow> nat) option) \<Rightarrow> ('a \<Rightarrow> json) \<Rightarrow> 'a list \<Rightarrow> exn + 'a list" where
  "list_sort_reverse order f xs =
     (if length xs < 2 then Inr xs
      else if list_all (\<lambda>x. is_number (f x) \<and> f x \<noteq> JNaN) xs then
        Inr (rev (sort_key (\<lambda>x. num_key (f x)) (rev xs)))
      else if list_all (\<lambda>x. is_number (f x)) xs \<and> no_ascent f xs then Inr xs
      else
        (case order (map f xs) of
           None \<Rightarrow> Inl TypeError
         | Some rank \<Rightarrow> Inr (arrange rank xs)))"

text \<open>A stand-in for \<open>order\<close> at concrete inputs that do not reach it.\<close>

definition no_order :: "json list \<Rightarrow> (nat \<Rightarrow> nat) option" where
  "no_order keys = None"

section \<open>NameResolver: \<^verbatim>\<open>data_storage.get_credit_card_by_name\<close>\<close>

text \<open>
  \<^verbatim>\<open>card_lookup = {card.get("card_name", ""): card for card in cards if card.get("card_name")}\<close>.
  A card that is not a dict raises \<open>AttributeError\<close>; a truthy name that is a list or
  a dict is unhashable and raises \<open>TypeError\<close>. Keys are compared structurally (Python
  also identifies numerically equal keys such as \<^verbatim>\<open>1\<close> and \<^verbatim>\<open>1.0\<close>; a numeric
  key is never returned by the resolver, see \<open>exact_loop\<close>).
\<close>

fun hashable :: "json \<Rightarrow> bool" where
  "hashable (JList xs) = False"
| "hashable (JObj kvs) = False"
| "hashable _ = True"

fun build_lookup :: "json list \<Rightarrow> (json \<times> json) list \<Rightarrow> exn + (json \<times> json) list" where
  "build_lookup [] acc = Inr acc"
| "build_lookup (crd # cards) acc =
     bind (dict_get crd ''card_name'' JNull) (\<lambda>name.
       if truthy name then
         (if hashable name then build_lookup cards (dict_set acc name crd) else Inl TypeError)
       else build_lookup cards acc)"

text \<open>
  The exact-match loop: \<^verbatim>\<open>for name in card_names: if card_name_lower == name.lower(): return card_lookup[name]\<close>.
  \<open>Inr None\<close> means the loop ended without returning.
\<close>

fun exact_loop :: "string \<Rightarrow> (json \<times> json) list \<Rightarrow> json list \<Rightarrow> exn + json option" where
  "exact_loop card_name_lower card_lookup [] = Inr None"
| "exact_loop card_name_lower card_lookup (name # names) =
     bind (str_lower name) (\<lambda>l.
       if card_name_lower = l then bind (dict_index card_lookup name) (\<lambda>c. Inr (Some c))
       else exact_loop card_name_lower card_lookup names)"

text \<open>
  Modelled from the spec: \<^verbatim>\<open>rapidfuzz.process.extractOne(query, choices, scorer, score_cutoff)\<close>
  is a library call whose code is not in the repository. Following section 4.1 of the
  specification it selects the maximum-scoring choice, the first one seen among equal
  scores, and accepts it only if its score reaches the threshold. The scorer
  (\<^verbatim>\<open>fuzz.WRatio\<close>, a score between 0 and 100) is a parameter.
\<close>

fun best_choice :: "(string \<Rightarrow> string \<Rightarrow> rat) \<Rightarrow> string \<Rightarrow> string list \<Rightarrow> (string \<times> rat) option" where
  "best_choice scorer query [] = None"
| "best_choice scorer query (c # cs) =
     (case best_choice scorer query cs of
        None \<Rightarrow> Some (c, scorer query c)
      | Some (b, s) \<Rightarrow> if s > scorer query c then Some (b, s) else Some (c, scorer query c))"

text \<open>
  Modelled from the spec: the acceptance test of \<^verbatim>\<open>extractOne\<close>, which is missing with
  the library. The best-scoring choice is returned with its score if the score is at
  least \<open>score_cutoff\<close>, and nothing is returned otherwise.
\<close>

definition extractOne :: "(string \<Rightarrow> string \<Rightarrow> rat) \<Rightarrow> string \<Rightarrow> string list \<Rightarrow> rat \<Rightarrow> (string \<times> rat) option" where
  "extractOne scorer query choices score_cutoff =
     (case best_choice scorer query choices of
        None \<Rightarrow> None
      | Some (b, s) \<Rightarrow> if s \<ge> score_cutoff then Some (b, s) else None)"

text \<open>The choices handed to the matcher. When the exact-match loop has ended without
  returning and without raising, every key of the lookup dict is a string.\<close>

fun str_values :: "json list \<Rightarrow> string list" where
  "str_values [] = []"
| "str_values (JStr s # vs) = s # str_values vs"
| "str_values (_ # vs) = str_values vs"

text \<open>The resolver. \<open>FUZZY_MATCH_THRESHOLD\<close> is read from the environment (default 85)
  and is the second parameter; the catalog that \<^verbatim>\<open>get_credit_cards()\<close> loads is the
  third. \<open>Inr None\<close> is the result \<^verbatim>\<open>None\<close> (not found).\<close>

definition get_credit_card_by_name ::
    "(string \<Rightarrow> string \<Rightarrow> rat) \<Rightarrow> int \<Rightarrow> json list \<Rightarrow> string \<Rightarrow> exn + json option" where
  "get_credit_card_by_name WRatio FUZZY_MATCH_THRESHOLD cards card_name =
     (if cards = [] then Inr None
      else
        let card_name_lower = strip (lower card_name) in
        bind (build_lookup cards []) (\<lambda>card_lookup.
          let card_names = map fst card_lookup in
          bind (exact_loop card_name_lower card_lookup card_names) (\<lambda>hit.
            case hit of
              Some c \<Rightarrow> Inr (Some c)
            | None \<Rightarrow>
                (case extractOne WRatio card_name (str_values card_names) (of_int FUZZY_MATCH_THRESHOLD) of
                   None \<Rightarrow> Inr None
                 | Some (matched_name, score) \<Rightarrow>
                     bind (dict_index card_lookup (JStr matched_name)) (\<lambda>c. Inr (Some c))))))"

text \<open>A catalog entry whose \<^verbatim>\<open>card_name\<close> is absent, falsy or a string: the shape
  the resolver expects of every entry.\<close>

fun name_is_text :: "json \<Rightarrow> bool" where
  "name_is_text (JObj kvs) =
     (case map_of kvs ''card_name'' of None \<Rightarrow> True | Some (JStr s) \<Rightarrow> True | Some v \<Rightarrow> \<not> truthy v)"
| "name_is_text _ = False"

text \<open>The lower-cased canonical name of an entry, when it has a string name.\<close>

definition lowered_name :: "json \<Rightarrow> string option" where
  "lowered_name c = (case dict_get c ''card_name'' JNull of Inr (JStr m) \<Rightarrow> Some (lower m) | _ \<Rightarrow> None)"

text \<open>\<open>k\<close> is the truthy \<^verbatim>\<open>card_name\<close> of the entry \<open>c\<close>.\<close>

definition card_name_of :: "json \<Rightarrow> json \<Rightarrow> bool" where
  "card_name_of c k \<longleftrightarrow> dict_get c ''card_name'' JNull = Inr k \<and> truthy k"

text \<open>A stand-in scorer for evaluating the resolver at concrete inputs: it gives 100
  to identical strings and 0 to all others. The theorems hold for every scorer.\<close>

definition exact_ratio :: "string \<Rightarrow> string \<Rightarrow> rat" where
  "exact_ratio a b = (if a = b then 100 else 0)"

text \<open>Sample catalog entries.\<close>

definition chase_card :: json where
  "chase_card = JObj [(''card_name'', JStr ''Chase Sapphire Preferred Credit Card''), (''issuer'', JStr ''Chase'')]"

definition amex_card :: json where
  "amex_card = JObj [(''card_name'', JStr ''The Platinum Card from American Express''), (''issuer'', JStr ''American Express'')]"

definition padded_card :: json where
  "padded_card = JObj [(''card_name'', JStr '' Gold''), (''issuer'', JStr ''A'')]"

definition plain_card :: json where
  "plain_card = JObj [(''card_name'', JStr ''gold''), (''issuer'', JStr ''B'')]"

section \<open>Dates: \<^verbatim>\<open>datetime.strptime(s, "%m/%d/%y")\<close> and the cutoff\<close>

text \<open>
  A naive \<^verbatim>\<open>datetime\<close>: the proleptic Gregorian ordinal of its date (1 is
  0001-01-01) and the microseconds since midnight. \<^verbatim>\<open>datetime.now()\<close> is a
  parameter of the search.
\<close>

record datetime =
  ordinal :: int
  usec :: nat

definition dt_ge :: "datetime \<Rightarrow> datetime \<Rightarrow> bool" where
  "dt_ge a b = (ordinal a > ordinal b \<or> (ordinal a = ordinal b \<and> usec a \<ge> usec b))"

definition is_leap :: "int \<Rightarrow> bool" where
  "is_leap y = (y mod 4 = 0 \<and> (y mod 100 \<noteq> 0 \<or> y mod 400 = 0))"

definition days_before_year :: "int \<Rightarrow> int" where
  "days_before_year y = (let p = y - 1 in p * 365 + p div 4 - p div 100 + p div 400)"

definition days_in_month :: "int \<Rightarrow> int \<Rightarrow> int" where
  "days_in_month y m =
     (if m = 2 then (if is_leap y then 29 else 28)
      else if m = 4 \<or> m = 6 \<or> m = 9 \<or> m = 11 then 30 else 31)"

definition ymd2ord :: "int \<Rightarrow> int \<Rightarrow> int \<Rightarrow> int" where
  "ymd2ord y m d = days_before_year y + sum_list (map (days_in_month y) [1..m - 1]) + d"

definition digit :: "char \<Rightarrow> int option" where
  "digit c = (let n = (of_char c :: nat) in if 48 \<le> n \<and> n \<le> 57 then Some (int n - 48) else None)"

text \<open>The directive \<^verbatim>\<open>%m\<close> matches \<^verbatim>\<open>1[0-2]|0[1-9]|[1-9]\<close>.\<close>

fun month_field :: "string \<Rightarrow> int option" where
  "month_field [a] = (case digit a of Some x \<Rightarrow> if 1 \<le> x then Some x else None | None \<Rightarrow> None)"
| "month_field [a, b] =
     (case (digit a, digit b) of
        (Some x, Some y) \<Rightarrow>
          if x = 1 \<and> y \<le> 2 then Some (10 + y)
          else if x = 0 \<and> 1 \<le> y then Some y else None
      | _ \<Rightarrow> None)"
| "month_field _ = None"

text \<open>The directive \<^verbatim>\<open>%d\<close> matches \<^verbatim>\<open>3[0-1]|[1-2]\d|0[1-9]|[1-9]| [1-9]\<close>.\<close>

fun day_field :: "string \<Rightarrow> int option" where
  "day_field [a] = (case digit a of Some x \<Rightarrow> if 1 \<le> x then Some x else None | None \<Rightarrow> None)"
| "day_field [a, b] =
     (case (digit a, digit b) of
        (Some x, Some y) \<Rightarrow>
          if x = 3 \<and> y \<le> 1 then Some (30 + y)
          else if x = 1 \<or> x = 2 then Some (10 * x + y)
          else if x = 0 \<and> 1 \<le> y then Some y else None
      | (None, Some y) \<Rightarrow> if a = CHR '' '' \<and> 1 \<le> y then Some y else None
      | _ \<Rightarrow> None)"
| "day_field _ = None"

text \<open>The directive \<^verbatim>\<open>%y\<close> matches two digits.\<close>

fun year_field :: "string \<Rightarrow> int option" where
  "year_field [a, b] =
     (case (digit a, digit b) of (Some x, Some y) \<Rightarrow> Some (10 * x + y) | _ \<Rightarrow> None)"
| "year_field _ = None"

fun split_on :: "char \<Rightarrow> string \<Rightarrow> string list" where
  "split_on sep [] = [[]]"
| "split_on sep (c # cs) =
     (if c = sep then [] # split_on sep cs
      else (case split_on sep cs of [] \<Rightarrow> [[c]] | p # ps \<Rightarrow> (c # p) # ps))"

text \<open>
  \<^verbatim>\<open>datetime.strptime(s, "%m/%d/%y")\<close> on a string; \<open>None\<close> is \<open>ValueError\<close>. The
  whole string has to be month, slash, day, slash, two-digit year; years 00 to 68 are
  2000 to 2068, years 69 to 99 are 1969 to 1999; the day must exist in the month.
\<close>

definition strptime_mdy :: "string \<Rightarrow> datetime option" where
  "strptime_mdy s =
     (case split_on (CHR ''/'') s of
        [m, d, y] \<Rightarrow>
          (case (month_field m, day_field d, year_field y) of
             (Some mo, Some da, Some yy) \<Rightarrow>
               (let year = (if yy \<le> 68 then 2000 + yy else 1900 + yy) in
                if da \<le> days_in_month year mo
                then Some \<lparr>ordinal = ymd2ord year mo da, usec = 0\<rparr> else None)
           | _ \<Rightarrow> None)
      | _ \<Rightarrow> None)"

text \<open>
  \<^verbatim>\<open>datetime.now() - timedelta(days=n)\<close>: \<^verbatim>\<open>timedelta\<close> refuses more than
  999999999 days, and the difference must not fall before 0001-01-01.
\<close>

definition cutoff_date :: "datetime \<Rightarrow> int \<Rightarrow> exn + datetime" where
  "cutoff_date now n =
     (if n > 999999999 then Inl OverflowError
      else if ordinal now - n < 1 then Inl OverflowError
      else Inr (now\<lparr>ordinal := ordinal now - n\<rparr>))"

text \<open>\<^verbatim>\<open>isinstance(v, int)\<close>, with the value: \<^verbatim>\<open>bool\<close> is a subclass of \<^verbatim>\<open>int\<close>.\<close>

fun py_int :: "json \<Rightarrow> int option" where
  "py_int (JInt n) = Some n"
| "py_int (JBool b) = Some (if b then 1 else 0)"
| "py_int _ = None"

section \<open>CardCatalogSearch: \<^verbatim>\<open>tools.credit_card_search\<close>\<close>

text \<open>What a tool returns instead of its result: one of its validation errors, or the
  exception caught by its \<^verbatim>\<open>except Exception\<close> handler.\<close>

datatype tool_error =
    InvalidQuery | QueryTooLong | InvalidMaxResults | InvalidRecentlyUpdated
  | InvalidProgramName | ProgramNameTooLong | InvalidDirection
  | Raised exn

definition caught :: "exn + 'a \<Rightarrow> tool_error + 'a" where
  "caught m = (case m of Inl e \<Rightarrow> Inl (Raised e) | Inr x \<Rightarrow> Inr x)"

text \<open>One entry of \<^verbatim>\<open>search_results\<close>.\<close>

record search_hit =
  hit_card_name :: json
  hit_issuer :: json
  hit_rewards_currency :: json
  hit_annual_fee :: json
  hit_card_type :: json
  hit_score :: int
  hit_match_reasons :: "string list"

text \<open>The recency filter: the loop over \<open>cards\<close> that fills \<^verbatim>\<open>filtered_cards\<close>.
  \<^verbatim>\<open>strptime\<close> raises \<open>TypeError\<close> on a truthy value that is not a string, which the
  \<^verbatim>\<open>except ValueError\<close> of the loop does not catch.\<close>

fun filter_recent :: "datetime \<Rightarrow> json list \<Rightarrow> exn + json list" where
  "filter_recent cutoff [] = Inr []"
| "filter_recent cutoff (crd # cards) =
     bind (dict_get crd ''last_updated'' JNull) (\<lambda>last_updated.
       if truthy last_updated then
         (case last_updated of
            JStr s \<Rightarrow>
              (case strptime_mdy s of
                 None \<Rightarrow> filter_recent cutoff cards
               | Some card_date \<Rightarrow>
                   bind (filter_recent cutoff cards) (\<lambda>rest.
                     Inr (if dt_ge card_date cutoff then crd # rest else rest)))
          | _ \<Rightarrow> Inl TypeError)
       else filter_recent cutoff cards)"

text \<open>\<^verbatim>\<open>card.get(key, "").lower()\<close>.\<close>

definition field_lower :: "json \<Rightarrow> string \<Rightarrow> exn + string" where
  "field_lower d k = bind (dict_get d k (JStr [])) str_lower"

text \<open>A scalar field test: \<^verbatim>\<open>if query_lower in card.get(key, "").lower(): score += pts; match_reasons.append(reason)\<close>.
  The accumulator is the pair of \<open>score\<close> and \<open>match_reasons\<close>.\<close>

definition score_field ::
    "string \<Rightarrow> json \<Rightarrow> string \<Rightarrow> int \<Rightarrow> string \<Rightarrow> int \<times> string list \<Rightarrow> exn + int \<times> string list" where
  "score_field query_lower crd k pts reason acc =
     bind (field_lower crd k) (\<lambda>l.
       Inr (if contains query_lower l then (fst acc + pts, snd acc @ [reason]) else acc))"

text \<open>The text that an f-string inserts for \<^verbatim>\<open>item.get(key)\<close>. Where it is used the
  value has been lower-cased already, so it is a string, or the key is absent.\<close>

fun fmt_field :: "json \<Rightarrow> string" where
  "fmt_field (JStr s) = s"
| "fmt_field _ = ''None''"

text \<open>A list field test, 2 points for each item whose \<open>k\<close> contains the query:
  the loops over \<^verbatim>\<open>reward_multipliers\<close>, \<^verbatim>\<open>credits\<close> and \<^verbatim>\<open>lounge\<close>.\<close>

fun score_items ::
    "string \<Rightarrow> string \<Rightarrow> string \<Rightarrow> json list \<Rightarrow> int \<times> string list \<Rightarrow> exn + int \<times> string list" where
  "score_items query_lower k label [] acc = Inr acc"
| "score_items query_lower k label (item # items) acc =
     bind (field_lower item k) (\<lambda>l.
       if contains query_lower l then
         bind (dict_get item k JNull) (\<lambda>v.
           score_items query_lower k label items (fst acc + 2, snd acc @ [label @ fmt_field v]))
       else score_items query_lower k label items acc)"

definition score_list ::
    "string \<Rightarrow> json \<Rightarrow> string \<Rightarrow> string \<Rightarrow> string \<Rightarrow> int \<times> string list \<Rightarrow> exn + int \<times> string list" where
  "score_list query_lower d field k label acc =
     bind (dict_get d field (JList [])) (\<lambda>v.
       bind (py_iter v) (\<lambda>items. score_items query_lower k label items acc))"

text \<open>The body of the scoring loop for one card: the score and the match reasons.\<close>

definition score_card :: "string \<Rightarrow> json \<Rightarrow> exn + int \<times> string list" where
  "score_card query_lower crd =
     bind (score_field query_lower crd ''card_name'' 10 ''Card name match'' (0, [])) (\<lambda>a1.
     bind (score_field query_lower crd ''issuer'' 5 ''Issuer match'' a1) (\<lambda>a2.
     bind (score_field query_lower crd ''rewards_currency'' 3 ''Rewards currency match'' a2) (\<lambda>a3.
     bind (score_list query_lower crd ''reward_multipliers'' ''category'' ''Category: '' a3) (\<lambda>a4.
     bind (dict_get crd ''benefits'' (JObj [])) (\<lambda>benefits.
     bind (score_list query_lower benefits ''credits'' ''type'' ''Credit: '' a4) (\<lambda>a5.
     bind (score_list query_lower benefits ''lounge'' ''type'' ''Lounge: '' a5) (\<lambda>a6.
     score_field query_lower crd ''card_type'' 3 ''Card type match'' a6)))))))"

definition make_hit :: "json \<Rightarrow> int \<Rightarrow> string list \<Rightarrow> exn + search_hit" where
  "make_hit crd sc reasons =
     bind (dict_get crd ''card_name'' JNull) (\<lambda>n.
     bind (dict_get crd ''issuer'' JNull) (\<lambda>i.
     bind (dict_get crd ''rewards_currency'' JNull) (\<lambda>r.
     bind (dict_get crd ''annual_fee'' JNull) (\<lambda>f.
     bind (dict_get crd ''card_type'' JNull) (\<lambda>t.
       Inr \<lparr>hit_card_name = n, hit_issuer = i, hit_rewards_currency = r, hit_annual_fee = f,
            hit_card_type = t, hit_score = sc, hit_match_reasons = take 3 reasons\<rparr>)))))"

text \<open>The scoring loop: a card is appended to \<open>matches\<close> if its score is positive.\<close>

fun collect_matches :: "string \<Rightarrow> json list \<Rightarrow> exn + search_hit list" where
  "collect_matches query_lower [] = Inr []"
| "collect_matches query_lower (crd # cards) =
     bind (score_card query_lower crd) (\<lambda>a.
       if fst a > 0 then
         bind (make_hit crd (fst a) (snd a)) (\<lambda>h.
           bind (collect_matches query_lower cards) (\<lambda>rest. Inr (h # rest)))
       else collect_matches query_lower cards)"

text \<open>The part of the tool after the checks of \<open>query\<close> and \<open>max_results\<close>: the check
  of \<open>recently_updated\<close>, the recency filter, the scoring loop and the sort.\<close>

definition select_cards :: "datetime \<Rightarrow> json list \<Rightarrow> json \<Rightarrow> tool_error + json list" where
  "select_cards now cards recently_updated =
     (if recently_updated \<noteq> JNull then
        (case py_int recently_updated of
           None \<Rightarrow> Inl InvalidRecentlyUpdated
         | Some n \<Rightarrow>
             if n < 1 then Inl InvalidRecentlyUpdated
             else caught (bind (cutoff_date now n) (\<lambda>cutoff_date. filter_recent cutoff_date cards)))
      else Inr cards)"

definition ranked_matches :: "datetime \<Rightarrow> json list \<Rightarrow> string \<Rightarrow> json \<Rightarrow> tool_error + search_hit list" where
  "ranked_matches now cards query recently_updated =
     (case select_cards now cards recently_updated of
        Inl e \<Rightarrow> Inl e
      | Inr kept \<Rightarrow>
          (case caught (collect_matches (lower query) kept) of
             Inl e \<Rightarrow> Inl e
           | Inr matches \<Rightarrow> Inr (sort_reverse hit_score matches)))"

text \<open>The tool. Its result is the list \<^verbatim>\<open>search_results\<close>; \<^verbatim>\<open>total_results\<close> is its
  length. \<open>query\<close> and \<open>max_results\<close> have their annotated types, \<open>recently_updated\<close>
  is any decoded value (\<open>JNull\<close> is \<^verbatim>\<open>None\<close>).\<close>

definition credit_card_search ::
    "datetime \<Rightarrow> json list \<Rightarrow> string \<Rightarrow> int \<Rightarrow> json \<Rightarrow> tool_error + search_hit list" where
  "credit_card_search now cards query max_results recently_updated =
     (if query = [] then Inl InvalidQuery
      else if length query > 500 then Inl QueryTooLong
      else if max_results < 1 then Inl InvalidMaxResults
      else
        let max_results = (if max_results > 50 then 50 else max_results) in
        (case ranked_matches now cards query recently_updated of
           Inl e \<Rightarrow> Inl e
         | Inr matches \<Rightarrow> Inr (take (nat max_results) matches)))"

text \<open>The cards that pass the recency filter, stated directly: \<^verbatim>\<open>last_updated\<close> is a
  string that parses, and the parsed date is not before the cutoff.\<close>

definition within_cutoff :: "datetime \<Rightarrow> json \<Rightarrow> bool" where
  "within_cutoff cutoff c =
     (case dict_get c ''last_updated'' JNull of
        Inr (JStr s) \<Rightarrow> (case strptime_mdy s of Some d \<Rightarrow> dt_ge d cutoff | None \<Rightarrow> False)
      | _ \<Rightarrow> False)"

fun is_validation_error :: "tool_error \<Rightarrow> bool" where
  "is_validation_error (Raised e) = False"
| "is_validation_error _ = True"

text \<open>Sample data: the fourth of November 2026 at midnight, and three cards.\<close>

definition sample_now :: datetime where
  "sample_now = \<lparr>ordinal = ymd2ord 2026 11 4, usec = 0\<rparr>"

definition future_card :: json where
  "future_card = JObj [(''card_name'', JStr ''Future Card''), (''last_updated'', JStr ''12/25/26'')]"

definition recent_card :: json where
  "recent_card = JObj [(''card_name'', JStr ''Recent Card''), (''last_updated'', JStr ''10/30/26'')]"

definition undated_card :: json where
  "undated_card = JObj [(''card_name'', JStr ''Card Without Date'')]"

definition recent_hit :: search_hit where
  "recent_hit = \<lparr>hit_card_name = JStr ''Recent Card'', hit_issuer = JNull, hit_rewards_currency = JNull,
     hit_annual_fee = JNull, hit_card_type = JNull, hit_score = 10, hit_match_reasons = [''Card name match'']\<rparr>"

definition future_hit :: search_hit where
  "future_hit = \<lparr>hit_card_name = JStr ''Future Card'', hit_issuer = JNull, hit_rewards_currency = JNull,
     hit_annual_fee = JNull, hit_card_type = JNull, hit_score = 10, hit_match_reasons = [''Card name match'']\<rparr>"

section \<open>BenefitMatcher: \<^verbatim>\<open>tools.benefits_search\<close>\<close>

text \<open>A loop that sets \<open>matched\<close> and breaks at the first item that passes the test.\<close>

fun any_item :: "('a \<Rightarrow> exn + bool) \<Rightarrow> 'a list \<Rightarrow> exn + bool" where
  "any_item p [] = Inr False"
| "any_item p (x # xs) = bind (p x) (\<lambda>b. if b then Inr True else any_item p xs)"

text \<open>\<^verbatim>\<open>for x in d.get(k, [])\<close>.\<close>

definition iter_field :: "json \<Rightarrow> string \<Rightarrow> exn + json list" where
  "iter_field d k = bind (dict_get d k (JList [])) py_iter"

definition type_contains :: "string \<Rightarrow> json \<Rightarrow> exn + bool" where
  "type_contains query_lower item = bind (field_lower item ''type'') (\<lambda>l. Inr (contains query_lower l))"

definition credits_match :: "string \<Rightarrow> json \<Rightarrow> exn + bool" where
  "credits_match query_lower benefits =
     bind (iter_field benefits ''credits'') (any_item (type_contains query_lower))"

definition lounge_match :: "string \<Rightarrow> json \<Rightarrow> exn + bool" where
  "lounge_match query_lower benefits =
     bind (iter_field benefits ''lounge'') (any_item (type_contains query_lower))"

definition other_match :: "string \<Rightarrow> json \<Rightarrow> exn + bool" where
  "other_match query_lower benefits =
     bind (iter_field benefits ''other'')
       (any_item (\<lambda>other. bind (str_lower other) (\<lambda>l. Inr (contains query_lower l))))"

definition protection_contains :: "string \<Rightarrow> json \<Rightarrow> exn + bool" where
  "protection_contains query_lower prot =
     bind (field_lower prot ''type'') (\<lambda>prot_type.
     bind (field_lower prot ''description'') (\<lambda>prot_desc.
       Inr (contains query_lower prot_type \<or> contains query_lower prot_desc)))"

definition protections_match :: "string \<Rightarrow> json \<Rightarrow> exn + bool" where
  "protections_match query_lower benefits =
     bind (dict_get benefits ''protections'' (JObj [])) (\<lambda>protections.
       any_item (\<lambda>prot_category.
           bind (iter_field protections prot_category) (any_item (protection_contains query_lower)))
         [''purchase_protections'', ''travel_protections'', ''insurance_protections''])"

definition category_keywords :: "(string \<times> string) list" where
  "category_keywords =
     [(''hotel'', ''hotel_elite_status''), (''airline'', ''airline_elite_status''),
      (''rental'', ''rental_car_elite_status''), (''car'', ''rental_car_elite_status'')]"

definition status_categories :: "string list" where
  "status_categories =
     [''hotel_elite_status'', ''airline_elite_status'', ''rental_car_elite_status'', ''other_elite_status'']"

text \<open>The loop over \<open>query_words\<close> fills two lists.\<close>

fun target_categories :: "string list \<Rightarrow> string list" where
  "target_categories [] = []"
| "target_categories (w # ws) =
     (case map_of category_keywords w of
        Some c \<Rightarrow> c # target_categories ws
      | None \<Rightarrow> target_categories ws)"

fun remaining_words :: "string list \<Rightarrow> string list" where
  "remaining_words [] = []"
| "remaining_words (w # ws) =
     (case map_of category_keywords w of
        Some c \<Rightarrow> remaining_words ws
      | None \<Rightarrow> if w \<noteq> ''elite'' \<and> w \<noteq> ''status'' then w # remaining_words ws else remaining_words ws)"

text \<open>\<^verbatim>\<open>status.get(category) and len(status.get(category, [])) > 0\<close>.\<close>

definition has_entries :: "json \<Rightarrow> string \<Rightarrow> exn + bool" where
  "has_entries status category =
     bind (dict_get status category JNull) (\<lambda>v.
       if truthy v then
         bind (dict_get status category (JList [])) (\<lambda>v'. bind (py_len v') (\<lambda>n. Inr (n > 0)))
       else Inr False)"

text \<open>
  \<^verbatim>\<open>str(v)\<close>: a string is itself, \<^verbatim>\<open>None\<close>, the booleans and the floats that are
  not finite print their names. The text that Python prints for a finite number, a
  list or a dict is not modelled: it is the parameter \<open>repr\<close> of the matcher.
\<close>

fun py_str :: "(json \<Rightarrow> string) \<Rightarrow> json \<Rightarrow> string" where
  "py_str repr (JStr s) = s"
| "py_str repr JNull = ''None''"
| "py_str repr (JBool b) = (if b then ''True'' else ''False'')"
| "py_str repr JNaN = ''nan''"
| "py_str repr JInf = ''inf''"
| "py_str repr JNegInf = ''-inf''"
| "py_str repr v = repr v"

text \<open>\<^verbatim>\<open>f"{stat.get('program', '')} {stat.get('tier', '')} {stat.get('description', '')}".lower()\<close>.\<close>

definition stat_text :: "(json \<Rightarrow> string) \<Rightarrow> json \<Rightarrow> exn + string" where
  "stat_text repr stat =
     bind (dict_get stat ''program'' (JStr [])) (\<lambda>p.
     bind (dict_get stat ''tier'' (JStr [])) (\<lambda>t.
     bind (dict_get stat ''description'' (JStr [])) (\<lambda>d.
       Inr (lower (py_str repr p @ '' '' @ py_str repr t @ '' '' @ py_str repr d)))))"

text \<open>The body of the loop over the status categories when the query says "status"
  or "elite" and names no category.\<close>

definition generic_status_match :: "(json \<Rightarrow> string) \<Rightarrow> string list \<Rightarrow> json \<Rightarrow> string \<Rightarrow> exn + bool" where
  "generic_status_match repr remaining status status_category =
     bind (has_entries status status_category) (\<lambda>h.
       if h then
         (if remaining \<noteq> [] then
            bind (iter_field status status_category)
              (any_item (\<lambda>stat. bind (stat_text repr stat) (\<lambda>t. Inr (\<exists>word\<in>set remaining. contains word t))))
          else Inr True)
       else Inr False)"

text \<open>The body of the fallback loop: \<^verbatim>\<open>query_lower in str(stat).lower()\<close>.\<close>

definition keyword_status_match :: "(json \<Rightarrow> string) \<Rightarrow> string \<Rightarrow> json \<Rightarrow> string \<Rightarrow> exn + bool" where
  "keyword_status_match repr query_lower status status_category =
     bind (iter_field status status_category)
       (any_item (\<lambda>stat. Inr (contains query_lower (lower (py_str repr stat)))))"

text \<open>The elite-status stage.\<close>

definition status_match :: "(json \<Rightarrow> string) \<Rightarrow> string \<Rightarrow> json \<Rightarrow> exn + bool" where
  "status_match repr query_lower benefits =
     bind (dict_get benefits ''status'' (JObj [])) (\<lambda>status.
       let query_words = split query_lower;
           targets = target_categories query_words;
           remaining = remaining_words query_words
       in
         if targets \<noteq> [] then any_item (has_entries status) targets
         else if ''status'' \<in> set query_words \<or> ''elite'' \<in> set query_words then
           any_item (generic_status_match repr remaining status) status_categories
         else any_item (keyword_status_match repr query_lower status) status_categories)"

text \<open>The body of the loop over the cards: the final value of \<open>matched\<close>. Each stage
  runs only if no earlier stage has matched.\<close>

definition card_matches :: "(json \<Rightarrow> string) \<Rightarrow> string \<Rightarrow> json \<Rightarrow> exn + bool" where
  "card_matches repr query_lower crd =
     bind (dict_get crd ''benefits'' (JObj [])) (\<lambda>benefits.
     bind (credits_match query_lower benefits) (\<lambda>m1. if m1 then Inr True else
     bind (lounge_match query_lower benefits) (\<lambda>m2. if m2 then Inr True else
     bind (other_match query_lower benefits) (\<lambda>m3. if m3 then Inr True else
     bind (protections_match query_lower benefits) (\<lambda>m4. if m4 then Inr True else
     status_match repr query_lower benefits)))))"

text \<open>One entry of \<^verbatim>\<open>matches\<close>.\<close>

record benefit_hit =
  bh_card_name :: json
  bh_issuer :: json
  bh_rewards_currency :: json
  bh_annual_fee :: json
  bh_foreign_transaction_fee :: json
  bh_fm_mini_review :: json
  bh_benefits :: json
  bh_card_type :: json
  bh_last_updated_utc :: json

definition make_benefit_hit :: "json \<Rightarrow> exn + benefit_hit" where
  "make_benefit_hit crd =
     bind (dict_get crd ''benefits'' (JObj [])) (\<lambda>benefits.
     bind (dict_get crd ''card_name'' JNull) (\<lambda>n.
     bind (dict_get crd ''issuer'' JNull) (\<lambda>i.
     bind (dict_get crd ''rewards_currency'' JNull) (\<lambda>r.
     bind (dict_get crd ''annual_fee'' JNull) (\<lambda>f.
     bind (dict_get crd ''foreign_transaction_fee'' JNull) (\<lambda>x.
     bind (dict_get crd ''fm_mini_review'' JNull) (\<lambda>m.
     bind (dict_get crd ''card_type'' JNull) (\<lambda>t.
     bind (dict_get crd ''last_updated_utc'' JNull) (\<lambda>u.
       Inr \<lparr>bh_card_name = n, bh_issuer = i, bh_rewards_currency = r, bh_annual_fee = f,
            bh_foreign_transaction_fee = x, bh_fm_mini_review = m, bh_benefits = benefits,
            bh_card_type = t, bh_last_updated_utc = u\<rparr>)))))))))"

fun collect_benefit_matches :: "(json \<Rightarrow> string) \<Rightarrow> string \<Rightarrow> json list \<Rightarrow> exn + benefit_hit list" where
  "collect_benefit_matches repr query_lower [] = Inr []"
| "collect_benefit_matches repr query_lower (crd # cards) =
     bind (card_matches repr query_lower crd) (\<lambda>matched.
       if matched then
         bind (make_benefit_hit crd) (\<lambda>h.
           bind (collect_benefit_matches repr query_lower cards) (\<lambda>rest. Inr (h # rest)))
       else collect_benefit_matches repr query_lower cards)"

definition benefits_search :: "(json \<Rightarrow> string) \<Rightarrow> json list \<Rightarrow> string \<Rightarrow> tool_error + benefit_hit list" where
  "benefits_search repr cards query =
     (if query = [] then Inl InvalidQuery
      else if length query > 500 then Inl QueryTooLong
      else caught (collect_benefit_matches repr (lower query) cards))"

text \<open>The entries of a status category, when the category holds a list.\<close>

definition entries :: "json \<Rightarrow> string \<Rightarrow> json list" where
  "entries status category =
     (case dict_get status category (JList []) of Inr (JList xs) \<Rightarrow> xs | _ \<Rightarrow> [])"

text \<open>A status dict each of whose four categories is absent or a list.\<close>

fun status_wellformed :: "json \<Rightarrow> bool" where
  "status_wellformed (JObj kvs) =
     (\<forall>c\<in>set status_categories.
        case map_of kvs c of None \<Rightarrow> True | Some (JList xs) \<Rightarrow> True | Some v \<Rightarrow> False)"
| "status_wellformed _ = False"

text \<open>A stand-in for \<open>repr\<close> at concrete inputs: for a dict it gives the keys and the
  string values, separated by spaces. The theorems hold for every \<open>repr\<close>.\<close>

definition flat_repr :: "json \<Rightarrow> string" where
  "flat_repr v =
     (case v of
        JObj kvs \<Rightarrow> concat (map (\<lambda>kv. fst kv @ '' '' @ (case snd kv of JStr s \<Rightarrow> s | _ \<Rightarrow> []) @ '' '') kvs)
      | _ \<Rightarrow> [])"

text \<open>Sample cards: one with an airline status entry, one with a hotel credit and no
  status at all.\<close>

definition airline_status_card :: json where
  "airline_status_card =
     JObj [(''card_name'', JStr ''Sky Card''),
           (''benefits'', JObj [(''status'', JObj [(''airline_elite_status'',
              JList [JObj [(''program'', JStr ''Delta SkyMiles''), (''tier'', JStr ''Silver Medallion'')]])])])]"

definition hotel_credit_card :: json where
  "hotel_credit_card =
     JObj [(''card_name'', JStr ''Stay Card''),
           (''benefits'', JObj [(''credits'', JList [JObj [(''type'', JStr ''Hotel Credit'')]])])]"

definition airline_hit :: benefit_hit where
  "airline_hit =
     \<lparr>bh_card_name = JStr ''Sky Card'', bh_issuer = JNull, bh_rewards_currency = JNull,
      bh_annual_fee = JNull, bh_foreign_transaction_fee = JNull, bh_fm_mini_review = JNull,
      bh_benefits = JObj [(''status'', JObj [(''airline_elite_status'',
              JList [JObj [(''program'', JStr ''Delta SkyMiles''), (''tier'', JStr ''Silver Medallion'')]])])],
      bh_card_type = JNull, bh_last_updated_utc = JNull\<rparr>"

definition hotel_credit_hit :: benefit_hit where
  "hotel_credit_hit =
     \<lparr>bh_card_name = JStr ''Stay Card'', bh_issuer = JNull, bh_rewards_currency = JNull,
      bh_annual_fee = JNull, bh_foreign_transaction_fee = JNull, bh_fm_mini_review = JNull,
      bh_benefits = JObj [(''credits'', JList [JObj [(''type'', JStr ''Hotel Credit'')]])],
      bh_card_type = JNull, bh_last_updated_utc = JNull\<rparr>"

section \<open>TransferGraphResolver: \<^verbatim>\<open>tools.lookup_transfer_partners\<close> and \<^verbatim>\<open>tools.get_transfer_bonuses\<close>\<close>

text \<open>
  The partner table \<^verbatim>\<open>get_transfer_partners()\<close> is a dict from program name to the
  value holding its edges; the valuation table \<^verbatim>\<open>get_user_valuations()\<close> is a dict
  from program key to whatever value the valuation files hold for it. Both are
  parameters of the tools. The formatted strings of a result (\<^verbatim>\<open>summary\<close>,
  \<^verbatim>\<open>normal_ratio\<close>, \<^verbatim>\<open>effective_ratio\<close>, \<^verbatim>\<open>bonus_percentage\<close>) are kept as the values
  they format.
\<close>

text \<open>\<^verbatim>\<open>valuations.get(key, 1.0)\<close>.\<close>

definition valuation_of :: "(string \<times> json) list \<Rightarrow> string \<Rightarrow> json" where
  "valuation_of valuations k = (case map_of valuations k of None \<Rightarrow> JFloat 1 | Some v \<Rightarrow> v)"

record edge_info =
  edge_loyalty_program :: string
  edge_best :: json
  edge_ratio :: json
  edge_notes :: json
  edge_summary :: "json \<times> json"
  edge_bonus :: "json option"
  edge_bonus_expiration :: "json option"

record partner_info = edge_info +
  edge_valuation :: json

text \<open>A loop body applied to every item, in order; the first exception ends the loop.\<close>

fun map_exn :: "('a \<Rightarrow> exn + 'b) \<Rightarrow> 'a list \<Rightarrow> exn + 'b list" where
  "map_exn f [] = Inr []"
| "map_exn f (x # xs) = bind (f x) (\<lambda>y. bind (map_exn f xs) (\<lambda>ys. Inr (y # ys)))"

text \<open>
  \<^verbatim>\<open>if bonus: info["bonus"] = bonus; bonus_exp = partner.get("bonus_expiration"); if bonus_exp: info["bonus_expiration"] = bonus_exp\<close>:
  the two optional keys of an edge of the result.
\<close>

definition attached_bonus :: "json \<Rightarrow> json \<Rightarrow> exn + json option \<times> json option" where
  "attached_bonus partner bonus =
     (if truthy bonus then
        bind (dict_get partner ''bonus_expiration'' JNull) (\<lambda>bonus_exp.
          Inr (Some bonus, if truthy bonus_exp then Some bonus_exp else None))
      else Inr (None, None))"

text \<open>Direction "from": the body of the loop over the partners of the source program.\<close>

definition dest_info :: "(string \<times> json) list \<Rightarrow> json \<Rightarrow> exn + partner_info" where
  "dest_info valuations partner =
     bind (dict_get partner ''Loyalty Program'' (JStr [])) (\<lambda>loyalty_program.
     bind (dict_get partner ''Ratio'' (JFloat 1)) (\<lambda>ratio.
     bind (dict_get partner ''Best'' (JBool False)) (\<lambda>best.
     bind (dict_get partner ''Notes'' (JStr [])) (\<lambda>notes.
     bind (dict_get partner ''Bonus'' (JStr [])) (\<lambda>bonus.
       (case loyalty_program of
          JStr lp \<Rightarrow>
            (let dest_key = normalize_key lp;
                 valuation = valuation_of valuations dest_key
             in bind (attached_bonus partner bonus) (\<lambda>b.
                  Inr \<lparr>edge_loyalty_program = lp, edge_best = best, edge_ratio = ratio,
                       edge_notes = notes, edge_summary = (ratio, valuation),
                       edge_bonus = fst b, edge_bonus_expiration = snd b,
                       edge_valuation = valuation\<rparr>))
        | _ \<Rightarrow> Inl AttributeError))))))"

text \<open>Direction "from": the loop over the table returns at the first program whose
  name contains the query; \<open>Inr None\<close> means that the loop ended without returning.\<close>

fun from_program ::
    "(json list \<Rightarrow> (nat \<Rightarrow> nat) option) \<Rightarrow> (string \<times> json) list \<Rightarrow> string \<Rightarrow> (string \<times> json) list
       \<Rightarrow> exn + (string \<times> partner_info list) option" where
  "from_program order valuations program_name_lower [] = Inr None"
| "from_program order valuations program_name_lower ((prog_key, partners) # rest) =
     (if contains program_name_lower (lower prog_key) then
        bind (py_iter partners) (\<lambda>ps.
          bind (map_exn (dest_info valuations) ps) (\<lambda>result_partners.
            bind (list_sort_reverse order edge_valuation result_partners) (\<lambda>ranked.
              Inr (Some (prog_key, ranked)))))
      else from_program order valuations program_name_lower rest)"

text \<open>Direction "to": the body of the inner loop; \<open>None\<close> when the edge does not lead
  to the queried program.\<close>

definition source_info :: "(string \<times> json) list \<Rightarrow> string \<Rightarrow> string \<Rightarrow> json \<Rightarrow> exn + edge_info option" where
  "source_info valuations program_name_lower prog_key partner =
     bind (dict_get partner ''Loyalty Program'' (JStr [])) (\<lambda>loyalty_program.
     bind (str_lower loyalty_program) (\<lambda>l.
       if contains program_name_lower l then
         bind (dict_get partner ''Ratio'' (JFloat 1)) (\<lambda>ratio.
         bind (dict_get partner ''Best'' (JBool False)) (\<lambda>best.
         bind (dict_get partner ''Notes'' (JStr [])) (\<lambda>notes.
         bind (dict_get partner ''Bonus'' (JStr [])) (\<lambda>bonus.
           (let source_key = normalize_key prog_key;
                source_val = valuation_of valuations source_key
            in bind (attached_bonus partner bonus) (\<lambda>b.
                 Inr (Some \<lparr>edge_loyalty_program = prog_key, edge_best = best, edge_ratio = ratio,
                            edge_notes = notes, edge_summary = (ratio, source_val),
                            edge_bonus = fst b, edge_bonus_expiration = snd b\<rparr>)))))))
       else Inr None))"

fun to_partners :: "(string \<times> json) list \<Rightarrow> string \<Rightarrow> string \<Rightarrow> json list \<Rightarrow> exn + edge_info list" where
  "to_partners valuations program_name_lower prog_key [] = Inr []"
| "to_partners valuations program_name_lower prog_key (partner # ps) =
     bind (source_info valuations program_name_lower prog_key partner) (\<lambda>r.
       bind (to_partners valuations program_name_lower prog_key ps) (\<lambda>rest.
         Inr (case r of None \<Rightarrow> rest | Some i \<Rightarrow> i # rest)))"

fun to_program :: "(string \<times> json) list \<Rightarrow> string \<Rightarrow> (string \<times> json) list \<Rightarrow> exn + edge_info list" where
  "to_program valuations program_name_lower [] = Inr []"
| "to_program valuations program_name_lower ((prog_key, partners) # rest) =
     bind (py_iter partners) (\<lambda>ps.
       bind (to_partners valuations program_name_lower prog_key ps) (\<lambda>a.
         bind (to_program valuations program_name_lower rest) (\<lambda>b. Inr (a @ b))))"

datatype lookup_result =
    FromProgram string "partner_info list"
  | ToProgram string json "edge_info list"
  | NoResults string

text \<open>The tool. Its first parameter belongs to the sort of direction "from".\<close>

definition lookup_transfer_partners ::
    "(json list \<Rightarrow> (nat \<Rightarrow> nat) option) \<Rightarrow> (string \<times> json) list \<Rightarrow> (string \<times> json) list \<Rightarrow> string \<Rightarrow> string
       \<Rightarrow> tool_error + lookup_result" where
  "lookup_transfer_partners order transfer_data valuations program_name direction =
     (if program_name = [] then Inl InvalidProgramName
      else if length program_name > 200 then Inl ProgramNameTooLong
      else if direction \<noteq> ''from'' \<and> direction \<noteq> ''to'' then Inl InvalidDirection
      else
        let program_name_lower = lower program_name in
        if direction = ''from'' then
          (case caught (from_program order valuations program_name_lower transfer_data) of
             Inl e \<Rightarrow> Inl e
           | Inr (Some (prog_key, result_partners)) \<Rightarrow> Inr (FromProgram prog_key result_partners)
           | Inr None \<Rightarrow> Inr (NoResults program_name))
        else
          (case caught (to_program valuations program_name_lower transfer_data) of
             Inl e \<Rightarrow> Inl e
           | Inr source_programs \<Rightarrow>
               if source_programs \<noteq> [] then
                 Inr (ToProgram program_name (valuation_of valuations (normalize_key program_name)) source_programs)
               else Inr (NoResults program_name)))"

text \<open>\<^verbatim>\<open>a * b\<close> where \<open>a\<close> is a number: the product of two ints, the float product
  when a float is involved, the repetition of a string or a list by an int, and
  \<open>TypeError\<close> otherwise.\<close>

definition py_mul :: "json \<Rightarrow> json \<Rightarrow> exn + json" where
  "py_mul a b =
     (if is_number b then
        (case (py_int a, py_int b) of
           (Some m, Some n) \<Rightarrow> Inr (JInt (m * n))
         | _ \<Rightarrow> bind (to_float a) (\<lambda>x. bind (to_float b) (\<lambda>y. Inr (float_mul x y))))
      else
        (case (py_int a, b) of
           (Some n, JStr s) \<Rightarrow> Inr (JStr (concat (replicate (nat n) s)))
         | (Some n, JList xs) \<Rightarrow> Inr (JList (concat (replicate (nat n) xs)))
         | _ \<Rightarrow> Inl TypeError))"

record bonus_info =
  bonus_from_program :: string
  bonus_to_program :: json
  bonus_multiplier :: json
  bonus_percentage :: json
  bonus_normal_ratio :: json
  bonus_effective_ratio :: "json \<times> json"
  bonus_notes :: json
  bonus_expiration :: "json option"

text \<open>The body of the inner loop of \<^verbatim>\<open>get_transfer_bonuses\<close>; \<open>None\<close> is \<^verbatim>\<open>continue\<close>.
  The third guard is \<^verbatim>\<open>bonus <= 1.0\<close>, and \<^verbatim>\<open>bonus_pct = (bonus - 1.0) * 100\<close>, where the
  subtraction converts \<^verbatim>\<open>bonus\<close> to float.\<close>

definition bonus_entry :: "string \<Rightarrow> json \<Rightarrow> exn + bonus_info option" where
  "bonus_entry source_program partner =
     bind (dict_get partner ''Bonus'' JNull) (\<lambda>bonus.
       if bonus = JNull \<or> bonus = JStr ''None'' \<or> bonus = JStr ''Varies'' then Inr None
       else if \<not> is_number bonus then Inr None
       else if num_le bonus (JFloat 1) then Inr None
       else
         bind (dict_get partner ''Loyalty Program'' (JStr [])) (\<lambda>loyalty_program.
         bind (dict_get partner ''Ratio'' (JFloat 1)) (\<lambda>ratio.
         bind (dict_get partner ''Notes'' (JStr [])) (\<lambda>notes.
         bind (to_float bonus) (\<lambda>x.
         bind (py_mul bonus ratio) (\<lambda>product.
         bind (dict_get partner ''bonus_expiration'' JNull) (\<lambda>bonus_exp.
           Inr (Some \<lparr>bonus_from_program = source_program, bonus_to_program = loyalty_program,
                      bonus_multiplier = bonus,
                      bonus_percentage = float_mul (float_minus x 1) (JFloat 100),
                      bonus_normal_ratio = ratio, bonus_effective_ratio = (ratio, product),
                      bonus_notes = notes,
                      bonus_expiration = (if truthy bonus_exp then Some bonus_exp else None)\<rparr>))))))))"

fun partner_bonuses :: "string \<Rightarrow> json list \<Rightarrow> exn + bonus_info list" where
  "partner_bonuses source_program [] = Inr []"
| "partner_bonuses source_program (partner # ps) =
     bind (bonus_entry source_program partner) (\<lambda>r.
       bind (partner_bonuses source_program ps) (\<lambda>rest.
         Inr (case r of None \<Rightarrow> rest | Some b \<Rightarrow> b # rest)))"

fun collect_bonuses :: "string \<Rightarrow> (string \<times> json) list \<Rightarrow> exn + bonus_info list" where
  "collect_bonuses from_program_lower [] = Inr []"
| "collect_bonuses from_program_lower ((source_program, partners) # rest) =
     (if from_program_lower \<noteq> [] \<and> \<not> contains from_program_lower (lower source_program) then
        collect_bonuses from_program_lower rest
      else
        bind (py_iter partners) (\<lambda>ps.
          bind (partner_bonuses source_program ps) (\<lambda>a.
            bind (collect_bonuses from_program_lower rest) (\<lambda>b. Inr (a @ b)))))"

text \<open>The tool: its result is the list \<^verbatim>\<open>bonuses\<close>, sorted by \<^verbatim>\<open>bonus_multiplier\<close>.\<close>

definition get_transfer_bonuses ::
    "(json list \<Rightarrow> (nat \<Rightarrow> nat) option) \<Rightarrow> (string \<times> json) list \<Rightarrow> string \<Rightarrow> tool_error + bonus_info list" where
  "get_transfer_bonuses order transfer_data from_prog =
     (if length from_prog > 200 then Inl ProgramNameTooLong
      else
        caught (bind (collect_bonuses (lower from_prog) transfer_data)
                  (list_sort_reverse order bonus_multiplier)))"

text \<open>The edges of the table in table order, and those that lead to the queried
  program: the list that direction "to" is compared with.\<close>

definition table_edges :: "(string \<times> json) list \<Rightarrow> (string \<times> json) list" where
  "table_edges transfer_data =
     concat (map (\<lambda>kv. map (\<lambda>p. (fst kv, p)) (case py_iter (snd kv) of Inr ps \<Rightarrow> ps | Inl e \<Rightarrow> [])) transfer_data)"

definition leads_to :: "string \<Rightarrow> string \<times> json \<Rightarrow> bool" where
  "leads_to program_name_lower edge =
     (case dict_get (snd edge) ''Loyalty Program'' (JStr []) of
        Inr (JStr lp) \<Rightarrow> contains program_name_lower (lower lp)
      | _ \<Rightarrow> False)"

text \<open>A field of an edge as \<^verbatim>\<open>partner.get(k, default)\<close> reads it, and the raw
  \<^verbatim>\<open>Bonus\<close> and \<^verbatim>\<open>bonus_expiration\<close> of an edge as the lookup tool reads them.\<close>

definition field_or :: "json \<Rightarrow> string \<Rightarrow> json \<Rightarrow> json" where
  "field_or d k dflt = (case dict_get d k dflt of Inr v \<Rightarrow> v | Inl e \<Rightarrow> dflt)"

definition raw_bonus :: "json \<Rightarrow> json" where
  "raw_bonus partner = field_or partner ''Bonus'' (JStr [])"

definition raw_expiration :: "json \<Rightarrow> json" where
  "raw_expiration partner = field_or partner ''bonus_expiration'' JNull"

text \<open>The two optional keys of a result edge, as a function of the table edge.\<close>

definition bonus_keys :: "json \<Rightarrow> json option \<times> json option" where
  "bonus_keys partner =
     (if truthy (raw_bonus partner) then
        (Some (raw_bonus partner),
         if truthy (raw_expiration partner) then Some (raw_expiration partner) else None)
      else (None, None))"

text \<open>Sample partner table and valuations.\<close>

definition united_edge :: json where
  "united_edge = JObj [(''Loyalty Program'', JStr ''United MileagePlus''), (''Ratio'', JFloat 1), (''Bonus'', JFloat 1.25)]"

definition hyatt_edge :: json where
  "hyatt_edge = JObj [(''Loyalty Program'', JStr ''World of Hyatt''), (''Ratio'', JFloat 1), (''Bonus'', JStr ''None'')]"

definition avios_edge :: json where
  "avios_edge = JObj [(''Loyalty Program'', JStr ''British Airways Avios''), (''Ratio'', JFloat 1), (''Bonus'', JFloat 1.3),
                      (''bonus_expiration'', JStr ''12/31/26'')]"

definition sample_table :: "(string \<times> json) list" where
  "sample_table =
     [(''Chase Ultimate Rewards'', JList [united_edge, hyatt_edge, avios_edge]),
      (''Bilt Rewards'', JList [united_edge])]"

definition sample_valuations :: "(string \<times> json) list" where
  "sample_valuations =
     [(''united_mileageplus'', JFloat 1.2), (''world_of_hyatt'', JFloat 1.7),
      (''chase_ultimate_rewards'', JFloat 1.5)]"

text \<open>The fields that a result edge copies from a table edge: the ratio, the flag,
  the notes, and the two optional bonus keys.\<close>

definition describes :: "json \<Rightarrow> 'a edge_info_scheme \<Rightarrow> bool" where
  "describes partner info \<longleftrightarrow>
     edge_ratio info = field_or partner ''Ratio'' (JFloat 1)
     \<and> edge_best info = field_or partner ''Best'' (JBool False)
     \<and> edge_notes info = field_or partner ''Notes'' (JStr [])
     \<and> (edge_bonus info, edge_bonus_expiration info) = bonus_keys partner"

text \<open>The expected results on the sample table.\<close>

definition hyatt_dest :: partner_info where
  "hyatt_dest = \<lparr>edge_loyalty_program = ''World of Hyatt'', edge_best = JBool False,
     edge_ratio = JFloat 1, edge_notes = JStr [], edge_summary = (JFloat 1, JFloat 1.7),
     edge_bonus = Some (JStr ''None''), edge_bonus_expiration = None, edge_valuation = JFloat 1.7\<rparr>"

definition united_dest :: partner_info where
  "united_dest = \<lparr>edge_loyalty_program = ''United MileagePlus'', edge_best = JBool False,
     edge_ratio = JFloat 1, edge_notes = JStr [], edge_summary = (JFloat 1, JFloat 1.2),
     edge_bonus = Some (JFloat 1.25), edge_bonus_expiration = None, edge_valuation = JFloat 1.2\<rparr>"

definition avios_dest :: partner_info where
  "avios_dest = \<lparr>edge_loyalty_program = ''British Airways Avios'', edge_best = JBool False,
     edge_ratio = JFloat 1, edge_notes = JStr [], edge_summary = (JFloat 1, JFloat 1),
     edge_bonus = Some (JFloat 1.3), edge_bonus_expiration = Some (JStr ''12/31/26''),
     edge_valuation = JFloat 1\<rparr>"

definition chase_source :: edge_info where
  "chase_source = \<lparr>edge_loyalty_program = ''Chase Ultimate Rewards'', edge_best = JBool False,
     edge_ratio = JFloat 1, edge_notes = JStr [], edge_summary = (JFloat 1, JFloat 1.5),
     edge_bonus = Some (JFloat 1.25), edge_bonus_expiration = None\<rparr>"

definition bilt_source :: edge_info where
  "bilt_source = \<lparr>edge_loyalty_program = ''Bilt Rewards'', edge_best = JBool False,
     edge_ratio = JFloat 1, edge_notes = JStr [], edge_summary = (JFloat 1, JFloat 1),
     edge_bonus = Some (JFloat 1.25), edge_bonus_expiration = None\<rparr>"








section \<open>Properties of the resolver\<close>

subsection \<open>Sequencing and the lookup dict\<close>

lemma bind_Inr_iff: "bind m f = Inr y \<longleftrightarrow> (\<exists>x. m = Inr x \<and> f x = Inr y)"
  by (cases m) (simp_all add: bind_def)

lemma bind_Inr [simp]: "bind (Inr x) f = f x"
  by (simp add: bind_def)

lemma bind_Inl [simp]: "bind (Inl e) f = Inl e"
  by (simp add: bind_def)

lemma map_of_dict_set: "map_of (dict_set d k v) k' = (if k' = k then Some v else map_of d k')"
  by (induction d) auto

lemma set_dict_set: "set (dict_set d k v) \<subseteq> insert (k, v) (set d)"
  by (induction d) (auto split: if_splits)

lemma map_fst_dict_set:
  "map fst (dict_set d k v) = (if k \<in> fst ` set d then map fst d else map fst d @ [k])"
proof (induction d)
  case Nil
  then show ?case by simp
next
  case (Cons a d)
  obtain k' v' where a: "a = (k', v')" by (cases a)
  show ?case
  proof (cases "k' = k")
    case True
    with a show ?thesis by simp
  next
    case False
    with a Cons.IH show ?thesis by simp
  qed
qed

lemma keys_dict_set: "fst ` set (dict_set d k v) = insert k (fst ` set d)"
proof -
  have "set (map fst (dict_set d k v)) = insert k (set (map fst d))"
    unfolding map_fst_dict_set by auto
  then show ?thesis by simp
qed

lemma build_lookup_entries:
  "build_lookup cards acc = Inr L \<Longrightarrow> (k, v) \<in> set L \<Longrightarrow>
     (k, v) \<in> set acc \<or> (v \<in> set cards \<and> card_name_of v k)"
proof (induction cards arbitrary: acc)
  case Nil
  then show ?case by simp
next
  case (Cons c cards)
  from Cons.prems(1) obtain name where n: "dict_get c ''card_name'' JNull = Inr name"
    by (auto simp: bind_Inr_iff)
  show ?case
  proof (cases "truthy name")
    case True
    with Cons.prems(1) n have h: "hashable name" "build_lookup cards (dict_set acc name c) = Inr L"
      by (auto split: if_splits)
    from Cons.IH[OF h(2) Cons.prems(2)] set_dict_set[of acc name c] True n
    show ?thesis by (auto simp: card_name_of_def)
  next
    case False
    with Cons.prems(1) n have "build_lookup cards acc = Inr L" by simp
    from Cons.IH[OF this Cons.prems(2)] show ?thesis by auto
  qed
qed

lemma build_lookup_keys:
  "build_lookup cards acc = Inr L \<Longrightarrow>
     fst ` set L = fst ` set acc \<union> {k. \<exists>c\<in>set cards. card_name_of c k}"
proof (induction cards arbitrary: acc)
  case Nil
  then show ?case by simp
next
  case (Cons c cards)
  from Cons.prems(1) obtain name where n: "dict_get c ''card_name'' JNull = Inr name"
    by (auto simp: bind_Inr_iff)
  show ?case
  proof (cases "truthy name")
    case True
    with Cons.prems(1) n have h: "build_lookup cards (dict_set acc name c) = Inr L"
      by (simp split: if_splits)
    from Cons.IH[OF h] have ih: "fst ` set L = insert name (fst ` set acc) \<union> {k. \<exists>c\<in>set cards. card_name_of c k}"
      by (simp only: keys_dict_set)
    from True n have "\<And>k. card_name_of c k \<longleftrightarrow> k = name"
      by (auto simp: card_name_of_def)
    then have "{k. \<exists>c'\<in>set (c # cards). card_name_of c' k} = insert name {k. \<exists>c\<in>set cards. card_name_of c k}"
      by auto
    then show ?thesis unfolding ih by blast
  next
    case False
    with Cons.prems(1) n have "build_lookup cards acc = Inr L" by simp
    from Cons.IH[OF this] have ih: "fst ` set L = fst ` set acc \<union> {k. \<exists>c\<in>set cards. card_name_of c k}" .
    from False n have "\<And>k. \<not> card_name_of c k" by (auto simp: card_name_of_def)
    then have "{k. \<exists>c'\<in>set (c # cards). card_name_of c' k} = {k. \<exists>c\<in>set cards. card_name_of c k}"
      by auto
    then show ?thesis unfolding ih by blast
  qed
qed

lemma dict_index_Inr: "dict_index d k = Inr v \<Longrightarrow> (k, v) \<in> set d"
  by (auto simp: dict_index_def split: option.splits dest: map_of_SomeD)

lemma exact_loop_Some:
  "exact_loop q L names = Inr (Some c) \<Longrightarrow> \<exists>s. JStr s \<in> set names \<and> lower s = q \<and> (JStr s, c) \<in> set L"
proof (induction names)
  case Nil
  then show ?case by simp
next
  case (Cons name names)
  then show ?case
    by (cases name) (auto simp: bind_Inr_iff split: if_splits dest: dict_index_Inr)
qed

lemma exact_loop_None:
  "exact_loop q L names = Inr None \<Longrightarrow> \<forall>k\<in>set names. \<exists>s. k = JStr s"
proof (induction names)
  case Nil
  then show ?case by simp
next
  case (Cons name names)
  then show ?case
    by (cases name) (auto simp: bind_Inr_iff split: if_splits)
qed

lemma best_choice_mem: "best_choice f q cs = Some (b, s) \<Longrightarrow> b \<in> set cs \<and> s = f q b"
  by (induction cs arbitrary: b s) (auto split: option.splits if_splits)

lemma extractOne_mem: "extractOne f q cs t = Some (b, s) \<Longrightarrow> b \<in> set cs"
  by (auto simp: extractOne_def split: option.splits if_splits dest: best_choice_mem)

lemma str_values_mem: "s \<in> set (str_values vs) \<Longrightarrow> JStr s \<in> set vs"
  by (induction vs rule: str_values.induct) auto

lemma extractOne_mono:
  "t1 \<le> t2 \<Longrightarrow> extractOne f q cs t2 = Some r \<Longrightarrow> extractOne f q cs t1 = Some r"
  by (auto simp: extractOne_def split: option.splits if_splits)

lemma card_name_of_str:
  "card_name_of c (JStr s) \<Longrightarrow> dict_get c ''card_name'' JNull = Inr (JStr s) \<and> s \<noteq> []"
  by (simp add: card_name_of_def)

lemma name_is_text_key:
  "name_is_text c \<Longrightarrow> card_name_of c k \<Longrightarrow> \<exists>s. k = JStr s"
  by (cases c; cases k) (auto simp: card_name_of_def split: option.splits json.splits)

lemma name_is_text_get:
  "name_is_text c \<Longrightarrow> \<exists>v. dict_get c ''card_name'' JNull = Inr v \<and> (truthy v \<longrightarrow> hashable v)"
  by (cases c) (auto split: option.splits json.splits)

lemma build_lookup_total:
  "\<forall>c\<in>set cards. name_is_text c \<Longrightarrow> \<exists>L. build_lookup cards acc = Inr L"
proof (induction cards arbitrary: acc)
  case Nil
  then show ?case by simp
next
  case (Cons c cards)
  then obtain v where v: "dict_get c ''card_name'' JNull = Inr v" "truthy v \<longrightarrow> hashable v"
    using name_is_text_get[of c] by auto
  with Cons show ?case by simp
qed

lemma exact_loop_hit:
  assumes "\<forall>k\<in>set names. \<exists>m. k = JStr m \<and> (lower m = q \<longrightarrow> m = n)"
    and "JStr n \<in> set names" and "lower n = q" and "map_of L (JStr n) = Some e"
  shows "exact_loop q L names = Inr (Some e)"
  using assms(1,2)
proof (induction names)
  case Nil
  then show ?case by simp
next
  case (Cons k names)
  from Cons.prems(1) obtain m where m: "k = JStr m" "lower m = q \<longrightarrow> m = n" by auto
  show ?case
  proof (cases "lower m = q")
    case True
    with m assms(4) show ?thesis by (simp add: dict_index_def)
  next
    case False
    with m assms(3) have "k \<noteq> JStr n" by auto
    with Cons.prems have "JStr n \<in> set names" "\<forall>k\<in>set names. \<exists>m. k = JStr m \<and> (lower m = q \<longrightarrow> m = n)"
      by auto
    from Cons.IH[OF this(2,1)] False m show ?thesis by auto
  qed
qed

subsection \<open>Exact match\<close>

text \<open>
  C1, as amended. Let every catalog entry be a dict whose \<^verbatim>\<open>card_name\<close> is absent, falsy
  or a string, let the entry \<open>e\<close> have the non-empty name \<open>n\<close>, and let no other entry
  have a name that equals \<open>n\<close> up to case. Then every query whose lower-cased form,
  stripped of surrounding white space, is the lower-cased \<open>n\<close> resolves to \<open>e\<close>, whatever
  the scorer and the threshold are: the exact-match loop answers before the fuzzy
  matcher is consulted.
\<close>

theorem exact_name_resolves:
  assumes e: "e \<in> set cards" and n: "dict_get e ''card_name'' JNull = Inr (JStr n)" and ne: "n \<noteq> []"
    and wf: "\<forall>c\<in>set cards. name_is_text c"
    and uniq: "\<forall>c\<in>set cards. lowered_name c = Some (lower n) \<longrightarrow> c = e"
    and q: "strip (lower q) = lower n"
  shows "get_credit_card_by_name WRatio thr cards q = Inr (Some e)"
proof -
  from e have cards: "cards \<noteq> []" by auto
  from build_lookup_total[OF wf] obtain L where L: "build_lookup cards [] = Inr L" by blast
  have keys: "fst ` set L = {k. \<exists>c\<in>set cards. card_name_of c k}"
    using build_lookup_keys[OF L] by simp
  have en: "card_name_of e (JStr n)" using n ne by (simp add: card_name_of_def)
  have same: "m = n" if "JStr m \<in> fst ` set L" "lower m = lower n" for m
  proof -
    from that(1) keys obtain c where c: "c \<in> set cards" "card_name_of c (JStr m)" by auto
    with uniq that(2) have "c = e" by (auto simp: card_name_of_def lowered_name_def)
    with c(2) n show ?thesis by (simp add: card_name_of_def)
  qed
  have strs: "\<forall>k\<in>set (map fst L). \<exists>m. k = JStr m \<and> (lower m = lower n \<longrightarrow> m = n)"
  proof
    fix k assume "k \<in> set (map fst L)"
    then have k: "k \<in> fst ` set L" by simp
    with keys obtain c where c: "c \<in> set cards" "card_name_of c k" by auto
    with wf name_is_text_key obtain m where "k = JStr m" by blast
    with k same show "\<exists>m. k = JStr m \<and> (lower m = lower n \<longrightarrow> m = n)" by auto
  qed
  from e en keys have mem: "JStr n \<in> set (map fst L)" by auto
  then obtain v where v: "map_of L (JStr n) = Some v"
    by (cases "map_of L (JStr n)") (auto simp: map_of_eq_None_iff)
  then have "(JStr n, v) \<in> set L" by (rule map_of_SomeD)
  with build_lookup_entries[OF L] have "v \<in> set cards" "card_name_of v (JStr n)" by auto
  with uniq have "v = e" by (auto simp: card_name_of_def lowered_name_def)
  with v have "map_of L (JStr n) = Some e" by simp
  from exact_loop_hit[OF strs mem refl this]
  have "exact_loop (lower n) L (map fst L) = Inr (Some e)" .
  with cards L q show ?thesis
    by (simp add: get_credit_card_by_name_def Let_def)
qed

theorem exact_name_resolves_witness:
  "get_credit_card_by_name exact_ratio 85 [chase_card, amex_card] ''chase sapphire preferred credit card''
     = Inr (Some chase_card)"
  by (rule exact_name_resolves[where n = "''Chase Sapphire Preferred Credit Card''"]; code_simp)

text \<open>
  The claim C1 as stated fails: the query is stripped and the canonical names are not.
  The query \<^verbatim>\<open>" gold"\<close> equals the canonical name \<^verbatim>\<open>" Gold"\<close> up to case, and the
  exact-match loop returns the other entry, whose name is \<^verbatim>\<open>"gold"\<close>.
\<close>

theorem exact_match_counterexample:
  "padded_card \<in> set [padded_card, plain_card]
   \<and> dict_get padded_card ''card_name'' JNull = Inr (JStr '' Gold'')
   \<and> lower '' gold'' = lower '' Gold''
   \<and> get_credit_card_by_name exact_ratio 85 [padded_card, plain_card] '' gold'' = Inr (Some plain_card)
   \<and> plain_card \<noteq> padded_card"
  by code_simp

subsection \<open>The threshold\<close>

text \<open>
  C5. Fuzzy resolution is monotone in the threshold: a record that is returned at the
  threshold \<open>t2\<close> is returned, the same record, at every lower threshold \<open>t1\<close>. So
  raising the threshold never turns a not-found into a match and never changes the
  match; the threshold only gates the acceptance of the best-scoring name.
\<close>

theorem fuzzy_threshold_monotone:
  assumes "t1 \<le> t2" and "get_credit_card_by_name WRatio t2 cards q = Inr (Some r)"
  shows "get_credit_card_by_name WRatio t1 cards q = Inr (Some r)"
proof -
  from assms(2) have ne: "cards \<noteq> []"
    by (auto simp: get_credit_card_by_name_def)
  from assms(2) ne obtain L where L: "build_lookup cards [] = Inr L"
    by (auto simp: get_credit_card_by_name_def Let_def bind_Inr_iff)
  from assms(2) ne L obtain hit where hit: "exact_loop (strip (lower q)) L (map fst L) = Inr hit"
    by (auto simp: get_credit_card_by_name_def Let_def bind_Inr_iff)
  show ?thesis
  proof (cases hit)
    case (Some c)
    with assms(2) ne L hit show ?thesis
      by (simp add: get_credit_card_by_name_def Let_def)
  next
    case None
    with assms(2) ne L hit obtain b s where
      e2: "extractOne WRatio q (str_values (map fst L)) (of_int t2) = Some (b, s)"
      and d: "dict_index L (JStr b) = Inr r"
      by (auto simp: get_credit_card_by_name_def Let_def bind_Inr_iff split: option.splits)
    from assms(1) have "(of_int t1 :: rat) \<le> of_int t2" by simp
    from extractOne_mono[OF this e2]
    have "extractOne WRatio q (str_values (map fst L)) (of_int t1) = Some (b, s)" .
    with ne L hit None d show ?thesis
      by (simp add: get_credit_card_by_name_def Let_def)
  qed
qed

theorem fuzzy_threshold_monotone_witness:
  "get_credit_card_by_name exact_ratio 85 [padded_card] '' Gold'' = Inr (Some padded_card)
   \<and> get_credit_card_by_name exact_ratio 50 [padded_card] '' Gold'' = Inr (Some padded_card)"
proof -
  have r: "get_credit_card_by_name exact_ratio 85 [padded_card] '' Gold'' = Inr (Some padded_card)"
    by code_simp
  have "(50::int) \<le> 85" by simp
  from fuzzy_threshold_monotone[OF this r] r show ?thesis by simp
qed

subsection \<open>Entries without a name\<close>

text \<open>
  C10. A record that the resolver returns is an entry of the catalog whose
  \<^verbatim>\<open>card_name\<close> is present and is a non-empty string: entries whose name is missing or
  empty never enter the lookup dict, so neither the exact-match loop nor the fuzzy
  matcher can reach them.
\<close>

theorem resolved_card_has_name:
  assumes "get_credit_card_by_name WRatio thr cards q = Inr (Some r)"
  shows "r \<in> set cards \<and> (\<exists>s. dict_get r ''card_name'' JNull = Inr (JStr s) \<and> s \<noteq> [])"
proof -
  from assms have ne: "cards \<noteq> []"
    by (auto simp: get_credit_card_by_name_def)
  from assms ne obtain L where L: "build_lookup cards [] = Inr L"
    by (auto simp: get_credit_card_by_name_def Let_def bind_Inr_iff)
  from assms ne L obtain hit where hit: "exact_loop (strip (lower q)) L (map fst L) = Inr hit"
    by (auto simp: get_credit_card_by_name_def Let_def bind_Inr_iff)
  have "\<exists>s. (JStr s, r) \<in> set L"
  proof (cases hit)
    case (Some c)
    with assms ne L hit have "c = r"
      by (simp add: get_credit_card_by_name_def Let_def)
    with Some hit exact_loop_Some show ?thesis by blast
  next
    case None
    with assms ne L hit obtain b s where
      "dict_index L (JStr b) = Inr r"
      by (auto simp: get_credit_card_by_name_def Let_def bind_Inr_iff split: option.splits)
    then show ?thesis by (blast dest: dict_index_Inr)
  qed
  then obtain s where "(JStr s, r) \<in> set L" ..
  with build_lookup_entries[OF L] have "r \<in> set cards \<and> card_name_of r (JStr s)" by auto
  then show ?thesis by (auto dest: card_name_of_str)
qed

theorem resolved_card_has_name_witness:
  "get_credit_card_by_name exact_ratio 85 [undated_card, JObj [(''issuer'', JStr ''Nameless'')], amex_card]
      ''the platinum card from american express'' = Inr (Some amex_card)
   \<and> (\<exists>s. dict_get amex_card ''card_name'' JNull = Inr (JStr s) \<and> s \<noteq> [])"
proof -
  have r: "get_credit_card_by_name exact_ratio 85 [undated_card, JObj [(''issuer'', JStr ''Nameless'')], amex_card]
      ''the platinum card from american express'' = Inr (Some amex_card)"
    by code_simp
  from resolved_card_has_name[OF r] r show ?thesis by simp
qed

section \<open>Properties of the catalog search\<close>

lemma caught_Inr_iff: "caught m = Inr x \<longleftrightarrow> m = Inr x"
  by (cases m) (simp_all add: caught_def)

lemma filter_recent_eq:
  "filter_recent cutoff cards = Inr kept \<Longrightarrow> kept = filter (within_cutoff cutoff) cards"
proof (induction cards arbitrary: kept)
  case Nil
  then show ?case by simp
next
  case (Cons c cards)
  from Cons.prems obtain lu where lu: "dict_get c ''last_updated'' JNull = Inr lu"
    by (auto simp: bind_Inr_iff)
  show ?case
  proof (cases "truthy lu")
    case False
    with Cons.prems lu have "filter_recent cutoff cards = Inr kept" by simp
    from Cons.IH[OF this] have "kept = filter (within_cutoff cutoff) cards" .
    moreover from False lu have "\<not> within_cutoff cutoff c"
      by (cases lu) (auto simp: within_cutoff_def strptime_mdy_def)
    ultimately show ?thesis by simp
  next
    case True
    with Cons.prems lu obtain s where s: "lu = JStr s"
      by (cases lu) auto
    show ?thesis
    proof (cases "strptime_mdy s")
      case None
      with Cons.prems lu s True have "filter_recent cutoff cards = Inr kept" by simp
      from Cons.IH[OF this] None lu s show ?thesis by (simp add: within_cutoff_def)
    next
      case (Some d)
      with Cons.prems lu s True obtain rest where
        rest: "filter_recent cutoff cards = Inr rest"
        and k: "kept = (if dt_ge d cutoff then c # rest else rest)"
        by (auto simp: bind_Inr_iff)
      from Cons.IH[OF rest] k Some lu s show ?thesis by (simp add: within_cutoff_def)
    qed
  qed
qed

lemma make_hit_score: "make_hit c sc rs = Inr h \<Longrightarrow> hit_score h = sc"
  by (auto simp: make_hit_def bind_Inr_iff)

lemma collect_matches_positive:
  "collect_matches q cards = Inr ms \<Longrightarrow> \<forall>h\<in>set ms. 0 < hit_score h"
proof (induction cards arbitrary: ms)
  case Nil
  then show ?case by simp
next
  case (Cons c cards)
  from Cons.prems obtain a where a: "score_card q c = Inr a" by (auto simp: bind_Inr_iff)
  show ?case
  proof (cases "0 < fst a")
    case True
    with Cons.prems a obtain h rest where
      "make_hit c (fst a) (snd a) = Inr h" "collect_matches q cards = Inr rest" "ms = h # rest"
      by (auto simp: bind_Inr_iff)
    with Cons.IH[of rest] True show ?thesis by (auto dest: make_hit_score)
  next
    case False
    with Cons.prems a Cons.IH[of ms] show ?thesis by simp
  qed
qed

lemma ranked_matches_positive:
  "ranked_matches now cards q ru = Inr ms \<Longrightarrow> \<forall>h\<in>set ms. 0 < hit_score h"
  by (auto simp: ranked_matches_def sort_reverse_def caught_Inr_iff
        split: sum.splits dest: collect_matches_positive)

lemma search_Inr:
  "credit_card_search now cards q m ru = Inr rs \<longleftrightarrow>
     q \<noteq> [] \<and> length q \<le> 500 \<and> 1 \<le> m \<and>
     (\<exists>ms. ranked_matches now cards q ru = Inr ms \<and> rs = take (nat (min m 50)) ms)"
  by (auto simp: credit_card_search_def Let_def min_def split: sum.splits)

lemma select_cards_JNull: "select_cards now cards JNull = Inr cards"
  by (simp add: select_cards_def)

lemma select_cards_Inr:
  assumes "select_cards now cards ru = Inr kept" and "ru \<noteq> JNull"
  shows "\<exists>n cutoff. py_int ru = Some n \<and> 1 \<le> n \<and> cutoff_date now n = Inr cutoff
           \<and> kept = filter (within_cutoff cutoff) cards"
proof -
  from assms obtain n where n: "py_int ru = Some n" "1 \<le> n"
    by (auto simp: select_cards_def split: option.splits if_splits)
  with assms obtain cutoff where c: "cutoff_date now n = Inr cutoff" "filter_recent cutoff cards = Inr kept"
    by (auto simp: select_cards_def caught_Inr_iff bind_Inr_iff)
  with n filter_recent_eq show ?thesis by blast
qed

lemma within_cutoff_D:
  "within_cutoff cutoff c \<Longrightarrow>
     \<exists>s d. dict_get c ''last_updated'' JNull = Inr (JStr s) \<and> strptime_mdy s = Some d \<and> dt_ge d cutoff"
  by (auto simp: within_cutoff_def split: sum.splits json.splits option.splits)

lemma cutoff_date_Inr:
  "cutoff_date now n = Inr cutoff \<Longrightarrow> ordinal cutoff = ordinal now - n \<and> usec cutoff = usec now"
  by (auto simp: cutoff_date_def split: if_splits)

lemma ranked_matches_filtered:
  assumes "ranked_matches now cards q ru = Inr ms" and "py_int ru = Some n"
  shows "\<exists>cutoff. cutoff_date now n = Inr cutoff
           \<and> ranked_matches now (filter (within_cutoff cutoff) cards) q JNull = Inr ms"
proof -
  from assms(2) have ru: "ru \<noteq> JNull" by auto
  from assms(1) obtain kept where kept: "select_cards now cards ru = Inr kept"
    by (auto simp: ranked_matches_def split: sum.splits)
  from select_cards_Inr[OF kept ru] assms(2) obtain cutoff where
    c: "cutoff_date now n = Inr cutoff" "kept = filter (within_cutoff cutoff) cards"
    by auto
  from assms(1) kept have "ranked_matches now kept q JNull = Inr ms"
    by (simp add: ranked_matches_def select_cards_JNull)
  with c show ?thesis by auto
qed

subsection \<open>The recency filter\<close>

text \<open>
  C6, as amended. A \<open>recently_updated\<close> that is not \<^verbatim>\<open>None\<close> and is not an integer of
  at least 1 (Python counts \<^verbatim>\<open>True\<close> as the integer 1) gives a validation error. When
  it is an integer \<open>n\<close> and the search returns results, then \<open>n\<close> is at least 1 and the
  results are those of the unfiltered search over the cards, in catalog order, whose
  \<^verbatim>\<open>last_updated\<close> is a string that parses as MM/DD/YY to a date not before the
  cutoff, which is \<open>now\<close> minus \<open>n\<close> days: a card whose \<^verbatim>\<open>last_updated\<close> is missing or
  does not parse is excluded. Nothing is said about dates after \<open>now\<close>.
\<close>

theorem recently_updated_filter:
  "(ru \<noteq> JNull \<and> (\<forall>n. py_int ru = Some n \<longrightarrow> n < 1) \<longrightarrow>
      (\<exists>e. credit_card_search now cards q m ru = Inl e \<and> is_validation_error e))
   \<and> (py_int ru = Some n \<and> credit_card_search now cards q m ru = Inr rs \<longrightarrow>
      1 \<le> n \<and>
      (\<exists>cutoff. cutoff_date now n = Inr cutoff \<and> ordinal cutoff = ordinal now - n \<and> usec cutoff = usec now
         \<and> credit_card_search now (filter (within_cutoff cutoff) cards) q m JNull = Inr rs
         \<and> (\<forall>c\<in>set (filter (within_cutoff cutoff) cards). \<exists>s d.
              dict_get c ''last_updated'' JNull = Inr (JStr s) \<and> strptime_mdy s = Some d \<and> dt_ge d cutoff)))"
proof (intro conjI impI)
  assume a: "ru \<noteq> JNull \<and> (\<forall>n. py_int ru = Some n \<longrightarrow> n < 1)"
  then have "select_cards now cards ru = Inl InvalidRecentlyUpdated"
    by (auto simp: select_cards_def split: option.splits)
  then have "ranked_matches now cards q ru = Inl InvalidRecentlyUpdated"
    by (simp add: ranked_matches_def)
  then show "\<exists>e. credit_card_search now cards q m ru = Inl e \<and> is_validation_error e"
    by (auto simp: credit_card_search_def Let_def)
next
  assume a: "py_int ru = Some n \<and> credit_card_search now cards q m ru = Inr rs"
  then obtain ms where ms: "q \<noteq> []" "length q \<le> 500" "1 \<le> m"
    "ranked_matches now cards q ru = Inr ms" "rs = take (nat (min m 50)) ms"
    by (auto simp: search_Inr)
  from a have ru: "ru \<noteq> JNull" by auto
  from ms(4) obtain kept where kept: "select_cards now cards ru = Inr kept"
    by (auto simp: ranked_matches_def split: sum.splits)
  from select_cards_Inr[OF kept ru] a show "1 \<le> n" by auto
  from a ranked_matches_filtered[OF ms(4)] obtain cutoff where
    c: "cutoff_date now n = Inr cutoff"
       "ranked_matches now (filter (within_cutoff cutoff) cards) q JNull = Inr ms"
    by blast
  from c(2) ms have "credit_card_search now (filter (within_cutoff cutoff) cards) q m JNull = Inr rs"
    by (auto simp: search_Inr)
  moreover have "\<forall>c\<in>set (filter (within_cutoff cutoff) cards). \<exists>s d.
              dict_get c ''last_updated'' JNull = Inr (JStr s) \<and> strptime_mdy s = Some d \<and> dt_ge d cutoff"
    by (auto dest: within_cutoff_D)
  ultimately show "\<exists>cutoff. cutoff_date now n = Inr cutoff \<and> ordinal cutoff = ordinal now - n \<and> usec cutoff = usec now
         \<and> credit_card_search now (filter (within_cutoff cutoff) cards) q m JNull = Inr rs
         \<and> (\<forall>c\<in>set (filter (within_cutoff cutoff) cards). \<exists>s d.
              dict_get c ''last_updated'' JNull = Inr (JStr s) \<and> strptime_mdy s = Some d \<and> dt_ge d cutoff)"
    using c(1) cutoff_date_Inr[OF c(1)] by blast
qed

theorem recently_updated_filter_witness:
  "credit_card_search sample_now [recent_card, undated_card] ''card'' 5 (JInt 0) = Inl InvalidRecentlyUpdated
   \<and> py_int (JInt 30) = Some 30
   \<and> credit_card_search sample_now [recent_card, undated_card] ''card'' 5 (JInt 30) = Inr [recent_hit]
   \<and> filter (within_cutoff \<lparr>ordinal = 739894, usec = 0\<rparr>) [recent_card, undated_card] = [recent_card]
   \<and> credit_card_search sample_now [recent_card] ''card'' 5 JNull = Inr [recent_hit]"
proof -
  have a: "JInt 0 \<noteq> JNull \<and> (\<forall>n. py_int (JInt 0) = Some n \<longrightarrow> n < 1)" by simp
  with recently_updated_filter[of "JInt 0" sample_now "[recent_card, undated_card]" "''card''" 5]
  obtain e where e: "credit_card_search sample_now [recent_card, undated_card] ''card'' 5 (JInt 0) = Inl e"
    by blast
  have "credit_card_search sample_now [recent_card, undated_card] ''card'' 5 (JInt 0) = Inl InvalidRecentlyUpdated"
    by code_simp
  with e have b: "credit_card_search sample_now [recent_card, undated_card] ''card'' 5 (JInt 0) = Inl InvalidRecentlyUpdated"
    by simp
  have c: "credit_card_search sample_now [recent_card, undated_card] ''card'' 5 (JInt 30) = Inr [recent_hit]"
    by code_simp
  have d: "filter (within_cutoff \<lparr>ordinal = 739894, usec = 0\<rparr>) [recent_card, undated_card] = [recent_card]"
    by code_simp
  have e: "cutoff_date sample_now 30 = Inr \<lparr>ordinal = 739894, usec = 0\<rparr>" by code_simp
  from recently_updated_filter[of "JInt 30" sample_now "[recent_card, undated_card]" "''card''" 5 30 "[recent_hit]"] c e d
  have "credit_card_search sample_now [recent_card] ''card'' 5 JNull = Inr [recent_hit]"
    by auto
  with b c d show ?thesis by simp
qed

text \<open>
  The claim C6 as stated fails on its upper bound: the filter compares the parsed date
  with the cutoff only, so a card dated after \<open>now\<close> (here 2026-12-25, seen from
  2026-11-04 with a window of 30 days) is kept although its date is not within the
  last 30 days.
\<close>

theorem future_date_counterexample:
  "credit_card_search sample_now [future_card] ''card'' 5 (JInt 30) = Inr [future_hit]
   \<and> dict_get future_card ''last_updated'' JNull = Inr (JStr ''12/25/26'')
   \<and> strptime_mdy ''12/25/26'' = Some \<lparr>ordinal = 739975, usec = 0\<rparr>
   \<and> sample_now = \<lparr>ordinal = 739924, usec = 0\<rparr>
   \<and> \<not> dt_ge sample_now \<lparr>ordinal = 739975, usec = 0\<rparr>"
  by code_simp

subsection \<open>Scores and prefixes\<close>

text \<open>
  C7. Every result of a search has a score strictly greater than 0, and lowering
  \<open>max_results\<close> (to a value that is still at least 1) yields a prefix of the longer
  result list, so the relative order of the kept results does not change.
\<close>

theorem search_positive_prefix:
  assumes "credit_card_search now cards q m2 ru = Inr r2" and "1 \<le> m1" and "m1 \<le> m2"
  shows "(\<forall>h\<in>set r2. 0 < hit_score h) \<and>
         (\<exists>r1. credit_card_search now cards q m1 ru = Inr r1 \<and> prefix r1 r2
               \<and> r1 = take (nat (min m1 50)) r2)"
proof -
  from assms(1) obtain ms where ms: "q \<noteq> []" "length q \<le> 500" "1 \<le> m2"
    "ranked_matches now cards q ru = Inr ms" "r2 = take (nat (min m2 50)) ms"
    by (auto simp: search_Inr)
  have pos: "\<forall>h\<in>set r2. 0 < hit_score h"
    using ranked_matches_positive[OF ms(4)] ms(5) by (auto dest: in_set_takeD)
  let ?r1 = "take (nat (min m1 50)) ms"
  have r1: "credit_card_search now cards q m1 ru = Inr ?r1"
    using ms assms(2) by (auto simp: search_Inr)
  from assms(3) have le: "nat (min m1 50) \<le> nat (min m2 50)" by simp
  then have eq: "?r1 = take (nat (min m1 50)) r2"
    by (simp add: ms(5) min_def)
  then have "prefix ?r1 r2" by (metis take_is_prefix)
  with pos r1 eq show ?thesis by blast
qed

theorem search_positive_prefix_witness:
  "credit_card_search sample_now [recent_card, future_card] ''card'' 2 JNull = Inr [recent_hit, future_hit]
   \<and> 0 < hit_score recent_hit \<and> 0 < hit_score future_hit
   \<and> credit_card_search sample_now [recent_card, future_card] ''card'' 1 JNull = Inr [recent_hit]
   \<and> prefix [recent_hit] [recent_hit, future_hit]"
proof -
  have r: "credit_card_search sample_now [recent_card, future_card] ''card'' 2 JNull = Inr [recent_hit, future_hit]"
    by code_simp
  from search_positive_prefix[OF r, of 1] r show ?thesis by auto
qed

subsection \<open>The cap on the number of results\<close>

text \<open>
  C8, as amended. For a valid query, a \<open>max_results\<close> below 1 is rejected with a
  validation error (it is not raised to 1); a \<open>max_results\<close> of at least 1 is capped at
  50 and the ranked list is truncated to that many entries.
\<close>

theorem max_results_capped:
  assumes "query \<noteq> []" and "length query \<le> 500"
  shows "credit_card_search now cards query max_results ru =
           (if max_results < 1 then Inl InvalidMaxResults
            else map_sum id (take (nat (min max_results 50))) (ranked_matches now cards query ru))
         \<and> (\<forall>rs. credit_card_search now cards query max_results ru = Inr rs \<longrightarrow>
               int (length rs) \<le> max_results \<and> length rs \<le> 50)"
proof -
  have 1: "credit_card_search now cards query max_results ru =
           (if max_results < 1 then Inl InvalidMaxResults
            else map_sum id (take (nat (min max_results 50))) (ranked_matches now cards query ru))"
    using assms by (auto simp: credit_card_search_def Let_def min_def split: sum.splits)
  have 2: "int (length rs) \<le> max_results \<and> length rs \<le> 50"
    if "credit_card_search now cards query max_results ru = Inr rs" for rs
    using that by (auto simp: search_Inr)
  from 1 2 show ?thesis by blast
qed

theorem max_results_capped_witness:
  "credit_card_search sample_now [recent_card, future_card] ''card'' 1 JNull = Inr [recent_hit]
   \<and> ranked_matches sample_now [recent_card, future_card] ''card'' JNull = Inr [recent_hit, future_hit]"
proof -
  have r: "ranked_matches sample_now [recent_card, future_card] ''card'' JNull = Inr [recent_hit, future_hit]"
    by code_simp
  have "''card'' \<noteq> []" "length ''card'' \<le> 500" by simp_all
  from max_results_capped[OF this, of sample_now "[recent_card, future_card]" 1 JNull] r
  show ?thesis by simp
qed

text \<open>
  The claim C8 as stated fails below 1: \<open>max_results = 0\<close> is not clamped to 1, the
  search returns a validation error where the clamped search returns one result.
\<close>

theorem max_results_counterexample:
  "credit_card_search sample_now [recent_card] ''card'' 0 JNull = Inl InvalidMaxResults
   \<and> credit_card_search sample_now [recent_card] ''card'' 1 JNull = Inr [recent_hit]"
  by code_simp

section \<open>Properties of the benefit matcher\<close>

lemma any_item_pure:
  "(\<forall>x\<in>set xs. p x = Inr (P x)) \<Longrightarrow> any_item p xs = Inr (\<exists>x\<in>set xs. P x)"
  by (induction xs) auto

lemma wf_cases:
  assumes "status_wellformed status" and "c \<in> set status_categories"
  obtains kvs where "status = JObj kvs" "map_of kvs c = None"
  | kvs xs where "status = JObj kvs" "map_of kvs c = Some (JList xs)"
proof -
  from assms(1) obtain kvs where kvs: "status = JObj kvs" by (cases status) auto
  with assms have "case map_of kvs c of None \<Rightarrow> True | Some (JList xs) \<Rightarrow> True | Some v \<Rightarrow> False"
    by auto
  with kvs that show thesis
    by (cases "map_of kvs c") (auto split: json.splits)
qed

lemma has_entries_wf:
  assumes "status_wellformed status" and "c \<in> set status_categories"
  shows "has_entries status c = Inr (entries status c \<noteq> [])"
  using assms
  by (rule wf_cases) (auto simp: has_entries_def entries_def)

lemma iter_field_wf:
  assumes "status_wellformed status" and "c \<in> set status_categories"
  shows "iter_field status c = Inr (entries status c)"
  using assms
  by (rule wf_cases) (auto simp: iter_field_def entries_def)

lemma target_categories_set:
  "set (target_categories ws) = {c. \<exists>w\<in>set ws. map_of category_keywords w = Some c}"
  by (induction ws) (auto split: option.splits)

lemma category_keywords_dom:
  "(\<exists>c. map_of category_keywords w = Some c) \<longleftrightarrow> w \<in> set [''hotel'', ''airline'', ''rental'', ''car'']"
  by (auto simp: category_keywords_def split: if_splits)

lemma category_keywords_ran:
  "map_of category_keywords w = Some c \<Longrightarrow> c \<in> set status_categories"
  by (auto simp: category_keywords_def status_categories_def split: if_splits)

lemma target_categories_empty:
  "target_categories ws = [] \<longleftrightarrow> (\<forall>w\<in>set ws. map_of category_keywords w = None)"
  by (induction ws) (auto split: option.splits)

lemma not_keyword:
  "w \<notin> set [''hotel'', ''airline'', ''rental'', ''car''] \<Longrightarrow> map_of category_keywords w = None"
  using category_keywords_dom[of w] by (cases "map_of category_keywords w") blast+

lemma status_match_named:
  assumes st: "dict_get benefits ''status'' (JObj []) = Inr status" and wf: "status_wellformed status"
    and named: "\<exists>w\<in>set (split q). w \<in> set [''hotel'', ''airline'', ''rental'', ''car'']"
  shows "status_match repr q benefits =
           Inr (\<exists>w\<in>set (split q). \<exists>c. map_of category_keywords w = Some c \<and> entries status c \<noteq> [])"
proof -
  let ?ts = "target_categories (split q)"
  from named obtain w where w: "w \<in> set (split q)" "w \<in> set [''hotel'', ''airline'', ''rental'', ''car'']"
    by blast
  from w(2) category_keywords_dom[of w] obtain c where "map_of category_keywords w = Some c" by blast
  with w(1) have ne: "?ts \<noteq> []" by (auto simp: target_categories_empty)
  have "\<forall>c\<in>set ?ts. has_entries status c = Inr (entries status c \<noteq> [])"
  proof
    fix c assume "c \<in> set ?ts"
    then obtain w where "map_of category_keywords w = Some c"
      unfolding target_categories_set by blast
    then have "c \<in> set status_categories" by (rule category_keywords_ran)
    with wf show "has_entries status c = Inr (entries status c \<noteq> [])" by (rule has_entries_wf)
  qed
  then have "any_item (has_entries status) ?ts = Inr (\<exists>c\<in>set ?ts. entries status c \<noteq> [])"
    by (rule any_item_pure)
  moreover have "(\<exists>c\<in>set ?ts. entries status c \<noteq> []) \<longleftrightarrow>
      (\<exists>w\<in>set (split q). \<exists>c. map_of category_keywords w = Some c \<and> entries status c \<noteq> [])"
    unfolding target_categories_set by blast
  ultimately have "any_item (has_entries status) ?ts =
      Inr (\<exists>w\<in>set (split q). \<exists>c. map_of category_keywords w = Some c \<and> entries status c \<noteq> [])"
    by simp
  with st ne show ?thesis by (simp add: status_match_def Let_def)
qed

lemma status_match_keyword:
  assumes st: "dict_get benefits ''status'' (JObj []) = Inr status" and wf: "status_wellformed status"
    and plain: "\<forall>w\<in>set (split q). w \<notin> set [''hotel'', ''airline'', ''rental'', ''car'', ''status'', ''elite'']"
  shows "status_match repr q benefits =
           Inr (\<exists>c\<in>set status_categories. \<exists>stat\<in>set (entries status c). contains q (lower (py_str repr stat)))"
proof -
  have "\<forall>w\<in>set (split q). map_of category_keywords w = None"
  proof
    fix w assume "w \<in> set (split q)"
    with plain have "w \<notin> set [''hotel'', ''airline'', ''rental'', ''car'', ''status'', ''elite'']" by blast
    then have "w \<notin> set [''hotel'', ''airline'', ''rental'', ''car'']" by simp
    then show "map_of category_keywords w = None" by (rule not_keyword)
  qed
  then have e: "target_categories (split q) = []" by (simp add: target_categories_empty)
  have n: "''status'' \<notin> set (split q)" "''elite'' \<notin> set (split q)"
    using plain by fastforce+
  have "\<forall>c\<in>set status_categories. keyword_status_match repr q status c =
          Inr (\<exists>stat\<in>set (entries status c). contains q (lower (py_str repr stat)))"
  proof
    fix c assume c: "c \<in> set status_categories"
    have "any_item (\<lambda>stat. Inr (contains q (lower (py_str repr stat)))) (entries status c)
            = Inr (\<exists>stat\<in>set (entries status c). contains q (lower (py_str repr stat)))"
      by (rule any_item_pure) simp
    with iter_field_wf[OF wf c]
    show "keyword_status_match repr q status c =
          Inr (\<exists>stat\<in>set (entries status c). contains q (lower (py_str repr stat)))"
      by (simp add: keyword_status_match_def)
  qed
  then have "any_item (keyword_status_match repr q status) status_categories =
      Inr (\<exists>c\<in>set status_categories. \<exists>stat\<in>set (entries status c). contains q (lower (py_str repr stat)))"
    by (rule any_item_pure)
  with st e n show ?thesis by (simp add: status_match_def Let_def)
qed

lemma card_matches_status:
  assumes "dict_get crd ''benefits'' (JObj []) = Inr benefits"
    and "credits_match q benefits = Inr False" and "lounge_match q benefits = Inr False"
    and "other_match q benefits = Inr False" and "protections_match q benefits = Inr False"
  shows "card_matches repr q crd = status_match repr q benefits"
  using assms by (simp add: card_matches_def)

subsection \<open>The elite-status stage\<close>

text \<open>
  C2, as amended. Take a card on which none of the four earlier stages (credits,
  lounge, other benefits, protections) matches the lower-cased query \<open>q\<close>, and whose
  status categories are absent or lists. If \<open>q\<close> has one of the tokens "hotel",
  "airline", "rental", "car", the card matches if and only if one of the categories
  these tokens name has at least one entry, whatever the text of the entries. If \<open>q\<close>
  has none of these tokens and neither "status" nor "elite", the card matches if and
  only if \<open>q\<close> as a whole is a substring of the lower-cased \<^verbatim>\<open>str\<close> of some status
  entry.
\<close>

theorem status_stage_matching:
  assumes "dict_get crd ''benefits'' (JObj []) = Inr benefits"
    and "credits_match q benefits = Inr False" and "lounge_match q benefits = Inr False"
    and "other_match q benefits = Inr False" and "protections_match q benefits = Inr False"
    and "dict_get benefits ''status'' (JObj []) = Inr status" and "status_wellformed status"
  shows "((\<exists>w\<in>set (split q). w \<in> set [''hotel'', ''airline'', ''rental'', ''car'']) \<longrightarrow>
            card_matches repr q crd =
              Inr (\<exists>w\<in>set (split q). \<exists>c. map_of category_keywords w = Some c \<and> entries status c \<noteq> []))
       \<and> ((\<forall>w\<in>set (split q). w \<notin> set [''hotel'', ''airline'', ''rental'', ''car'', ''status'', ''elite'']) \<longrightarrow>
            card_matches repr q crd =
              Inr (\<exists>c\<in>set status_categories. \<exists>stat\<in>set (entries status c).
                     contains q (lower (py_str repr stat))))"
proof (intro conjI impI)
  assume "\<exists>w\<in>set (split q). w \<in> set [''hotel'', ''airline'', ''rental'', ''car'']"
  then have "status_match repr q benefits =
              Inr (\<exists>w\<in>set (split q). \<exists>c. map_of category_keywords w = Some c \<and> entries status c \<noteq> [])"
    by (rule status_match_named[OF assms(6,7)])
  with card_matches_status[OF assms(1-5), of repr]
  show "card_matches repr q crd =
              Inr (\<exists>w\<in>set (split q). \<exists>c. map_of category_keywords w = Some c \<and> entries status c \<noteq> [])"
    by (rule trans)
next
  assume "\<forall>w\<in>set (split q). w \<notin> set [''hotel'', ''airline'', ''rental'', ''car'', ''status'', ''elite'']"
  then have "status_match repr q benefits =
              Inr (\<exists>c\<in>set status_categories. \<exists>stat\<in>set (entries status c).
                     contains q (lower (py_str repr stat)))"
    by (rule status_match_keyword[OF assms(6,7)])
  with card_matches_status[OF assms(1-5), of repr]
  show "card_matches repr q crd =
              Inr (\<exists>c\<in>set status_categories. \<exists>stat\<in>set (entries status c).
                     contains q (lower (py_str repr stat)))"
    by (rule trans)
qed

theorem status_stage_matching_witness:
  "card_matches flat_repr ''airline status'' airline_status_card = Inr True
   \<and> card_matches flat_repr ''hotel'' airline_status_card = Inr False
   \<and> card_matches flat_repr ''medallion'' airline_status_card = Inr True
   \<and> card_matches flat_repr ''globalist'' airline_status_card = Inr False
   \<and> benefits_search flat_repr [hotel_credit_card, airline_status_card] ''Airline Status'' = Inr [airline_hit]"
proof -
  let ?benefits = "JObj [(''status'', JObj [(''airline_elite_status'',
              JList [JObj [(''program'', JStr ''Delta SkyMiles''), (''tier'', JStr ''Silver Medallion'')]])])]"
  let ?status = "JObj [(''airline_elite_status'',
              JList [JObj [(''program'', JStr ''Delta SkyMiles''), (''tier'', JStr ''Silver Medallion'')]])]"
  have b: "dict_get airline_status_card ''benefits'' (JObj []) = Inr ?benefits" by code_simp
  have s: "dict_get ?benefits ''status'' (JObj []) = Inr ?status" by code_simp
  have wf: "status_wellformed ?status" by code_simp
  have st: "credits_match q ?benefits = Inr False" "lounge_match q ?benefits = Inr False"
    "other_match q ?benefits = Inr False" "protections_match q ?benefits = Inr False" for q
    by (simp_all add: credits_match_def lounge_match_def other_match_def protections_match_def
          iter_field_def)
  note th = status_stage_matching[OF b st s wf, where repr = flat_repr]
  have 1: "card_matches flat_repr ''airline status'' airline_status_card = Inr True"
  proof -
    have "\<exists>w\<in>set (split ''airline status''). w \<in> set [''hotel'', ''airline'', ''rental'', ''car'']"
      by code_simp
    moreover have "\<exists>w\<in>set (split ''airline status''). \<exists>c\<in>set status_categories.
        map_of category_keywords w = Some c \<and> entries ?status c \<noteq> []"
      by code_simp
    then have "\<exists>w\<in>set (split ''airline status''). \<exists>c. map_of category_keywords w = Some c \<and> entries ?status c \<noteq> []"
      by blast
    ultimately show ?thesis using th[of "''airline status''"] by simp
  qed
  have 2: "card_matches flat_repr ''hotel'' airline_status_card = Inr False"
  proof -
    have "\<exists>w\<in>set (split ''hotel''). w \<in> set [''hotel'', ''airline'', ''rental'', ''car'']"
      by code_simp
    moreover have "\<not> (\<exists>w\<in>set (split ''hotel''). \<exists>c\<in>set status_categories.
        map_of category_keywords w = Some c \<and> entries ?status c \<noteq> [])"
      by code_simp
    then have "\<not> (\<exists>w\<in>set (split ''hotel''). \<exists>c. map_of category_keywords w = Some c \<and> entries ?status c \<noteq> [])"
      by (blast dest: category_keywords_ran)
    ultimately show ?thesis using th[of "''hotel''"] by simp
  qed
  have 3: "card_matches flat_repr ''medallion'' airline_status_card = Inr True"
  proof -
    have "\<forall>w\<in>set (split ''medallion''). w \<notin> set [''hotel'', ''airline'', ''rental'', ''car'', ''status'', ''elite'']"
      by code_simp
    moreover have "\<exists>c\<in>set status_categories. \<exists>stat\<in>set (entries ?status c).
                     contains ''medallion'' (lower (py_str flat_repr stat))"
      by code_simp
    ultimately show ?thesis using th[of "''medallion''"] by simp
  qed
  have 4: "card_matches flat_repr ''globalist'' airline_status_card = Inr False"
  proof -
    have "\<forall>w\<in>set (split ''globalist''). w \<notin> set [''hotel'', ''airline'', ''rental'', ''car'', ''status'', ''elite'']"
      by code_simp
    moreover have "\<not> (\<exists>c\<in>set status_categories. \<exists>stat\<in>set (entries ?status c).
                     contains ''globalist'' (lower (py_str flat_repr stat)))"
      by code_simp
    ultimately show ?thesis using th[of "''globalist''"] by simp
  qed
  have 5: "benefits_search flat_repr [hotel_credit_card, airline_status_card] ''Airline Status'' = Inr [airline_hit]"
    by code_simp
  from 1 2 3 4 5 show ?thesis by blast
qed

text \<open>
  The claim C2 as stated fails because the status stage is the last of five: the query
  "hotel" names a status category, the card has no status entry at all, and the card
  matches all the same, through its credit of type "Hotel Credit".
\<close>

theorem category_presence_counterexample:
  "split (lower ''hotel'') = [''hotel'']
   \<and> benefits_search flat_repr [hotel_credit_card] ''hotel'' = Inr [hotel_credit_hit]
   \<and> card_matches flat_repr (lower ''hotel'') hotel_credit_card = Inr True
   \<and> dict_get hotel_credit_card ''benefits'' (JObj [])
        = Inr (JObj [(''credits'', JList [JObj [(''type'', JStr ''Hotel Credit'')]])])
   \<and> dict_get (JObj [(''credits'', JList [JObj [(''type'', JStr ''Hotel Credit'')]])]) ''status'' (JObj [])
        = Inr (JObj [])
   \<and> entries (JObj []) ''hotel_elite_status'' = []"
  by code_simp

section \<open>Properties of the transfer graph\<close>

subsection \<open>The sort\<close>

lemma mset_arrange: "mset (arrange rank xs) = mset xs"
proof -
  let ?zs = "zip (map rank [0..<length xs]) xs"
  have "mset (arrange rank xs) = mset (map snd ?zs)"
    unfolding arrange_def by (simp only: mset_map mset_sort)
  also have "map snd ?zs = xs" by (simp add: map_snd_zip)
  finally show ?thesis .
qed

lemma list_sort_reverse_mset:
  assumes "list_sort_reverse order f xs = Inr ys"
  shows "mset ys = mset xs"
proof -
  have "mset (arrange rank xs) = mset xs" for rank by (rule mset_arrange)
  with assms show ?thesis
    by (auto simp: list_sort_reverse_def split: if_splits option.splits)
qed

lemma list_sort_reverse_set:
  "list_sort_reverse order f xs = Inr ys \<Longrightarrow> set ys = set xs"
  by (drule list_sort_reverse_mset) (rule mset_eq_setD)

lemma list_sort_reverse_short:
  "length xs < 2 \<Longrightarrow> list_sort_reverse order f xs = Inr xs"
  by (simp add: list_sort_reverse_def)




subsection \<open>The loops\<close>

lemma map_exn_all2:
  "map_exn f xs = Inr ys \<Longrightarrow> list_all2 (\<lambda>x y. f x = Inr y) xs ys"
proof (induction xs arbitrary: ys)
  case Nil
  then show ?case by simp
next
  case (Cons x xs)
  then show ?case by (auto simp: bind_Inr_iff)
qed

lemma list_all2_mem:
  "list_all2 P xs ys \<Longrightarrow> y \<in> set ys \<Longrightarrow> \<exists>x\<in>set xs. P x y"
  by (induction rule: list_all2_induct) auto

lemma attached_bonus_eq:
  "dict_get partner ''Bonus'' (JStr []) = Inr bonus \<Longrightarrow>
   attached_bonus partner bonus = Inr b \<Longrightarrow> b = bonus_keys partner"
  by (cases partner)
     (auto simp: attached_bonus_def bonus_keys_def raw_bonus_def raw_expiration_def field_or_def
           bind_Inr_iff split: if_splits)

lemma dest_info_D:
  assumes "dest_info valuations partner = Inr d"
  shows "field_or partner ''Loyalty Program'' (JStr []) = JStr (edge_loyalty_program d)
       \<and> describes partner d
       \<and> edge_valuation d = valuation_of valuations (normalize_key (edge_loyalty_program d))"
proof -
  from assms obtain lpj ratio bst nts bonus where
    g: "dict_get partner ''Loyalty Program'' (JStr []) = Inr lpj"
       "dict_get partner ''Ratio'' (JFloat 1) = Inr ratio"
       "dict_get partner ''Best'' (JBool False) = Inr bst"
       "dict_get partner ''Notes'' (JStr []) = Inr nts"
       "dict_get partner ''Bonus'' (JStr []) = Inr bonus"
    and r: "(case lpj of
          JStr lp \<Rightarrow>
            (let dest_key = normalize_key lp;
                 valuation = valuation_of valuations dest_key
             in bind (attached_bonus partner bonus) (\<lambda>b.
                  Inr \<lparr>edge_loyalty_program = lp, edge_best = bst, edge_ratio = ratio,
                       edge_notes = nts, edge_summary = (ratio, valuation),
                       edge_bonus = fst b, edge_bonus_expiration = snd b,
                       edge_valuation = valuation\<rparr>))
        | _ \<Rightarrow> Inl AttributeError) = Inr d"
    unfolding dest_info_def bind_Inr_iff by blast
  from r obtain lp where lp: "lpj = JStr lp" by (cases lpj) simp_all
  with r obtain b where b: "attached_bonus partner bonus = Inr b"
    and d: "d = \<lparr>edge_loyalty_program = lp, edge_best = bst, edge_ratio = ratio,
                       edge_notes = nts, edge_summary = (ratio, valuation_of valuations (normalize_key lp)),
                       edge_bonus = fst b, edge_bonus_expiration = snd b,
                       edge_valuation = valuation_of valuations (normalize_key lp)\<rparr>"
    by (auto simp: Let_def bind_Inr_iff)
  from attached_bonus_eq[OF g(5) b] g lp d show ?thesis
    by (simp add: field_or_def describes_def)
qed

lemma dest_info_all2:
  assumes "map_exn (dest_info valuations) ps = Inr unsorted"
  shows "list_all2 (\<lambda>p d. field_or p ''Loyalty Program'' (JStr []) = JStr (edge_loyalty_program d)
                      \<and> describes p d
                      \<and> edge_valuation d = valuation_of valuations (normalize_key (edge_loyalty_program d)))
           ps unsorted"
  using map_exn_all2[OF assms] by (rule list_all2_mono) (rule dest_info_D)

lemma source_info_Some:
  assumes "source_info valuations q k partner = Inr (Some s)"
  shows "leads_to q (k, partner) \<and> edge_loyalty_program s = k \<and> describes partner s"
proof -
  from assms obtain lpj l where
    lpj: "dict_get partner ''Loyalty Program'' (JStr []) = Inr lpj" and l: "str_lower lpj = Inr l"
    and r: "(if contains q l then
         bind (dict_get partner ''Ratio'' (JFloat 1)) (\<lambda>ratio.
         bind (dict_get partner ''Best'' (JBool False)) (\<lambda>best.
         bind (dict_get partner ''Notes'' (JStr [])) (\<lambda>notes.
         bind (dict_get partner ''Bonus'' (JStr [])) (\<lambda>bonus.
           (let source_key = normalize_key k;
                source_val = valuation_of valuations source_key
            in bind (attached_bonus partner bonus) (\<lambda>b.
                 Inr (Some \<lparr>edge_loyalty_program = k, edge_best = best, edge_ratio = ratio,
                            edge_notes = notes, edge_summary = (ratio, source_val),
                            edge_bonus = fst b, edge_bonus_expiration = snd b\<rparr>)))))))
       else Inr None) = Inr (Some s)"
    unfolding source_info_def bind_Inr_iff by blast
  from l obtain lp where lp: "lpj = JStr lp" "l = lower lp" by (cases lpj) auto
  from r have c: "contains q l" by (auto split: if_splits)
  with r obtain ratio bst nts bonus b where
    g: "dict_get partner ''Ratio'' (JFloat 1) = Inr ratio"
       "dict_get partner ''Best'' (JBool False) = Inr bst"
       "dict_get partner ''Notes'' (JStr []) = Inr nts"
       "dict_get partner ''Bonus'' (JStr []) = Inr bonus"
       "attached_bonus partner bonus = Inr b"
    and s: "s = \<lparr>edge_loyalty_program = k, edge_best = bst, edge_ratio = ratio,
                            edge_notes = nts, edge_summary = (ratio, valuation_of valuations (normalize_key k)),
                            edge_bonus = fst b, edge_bonus_expiration = snd b\<rparr>"
    by (auto simp: bind_Inr_iff Let_def)
  from attached_bonus_eq[OF g(4,5)] g s lp lpj c show ?thesis
    by (simp add: field_or_def describes_def leads_to_def)
qed

lemma source_info_None:
  assumes "source_info valuations q k partner = Inr None"
  shows "\<not> leads_to q (k, partner)"
proof -
  from assms obtain lpj l where
    lpj: "dict_get partner ''Loyalty Program'' (JStr []) = Inr lpj" and l: "str_lower lpj = Inr l"
    by (auto simp: source_info_def bind_Inr_iff)
  from l obtain lp where lp: "lpj = JStr lp" "l = lower lp" by (cases lpj) auto
  have "\<not> contains q l"
  proof
    assume "contains q l"
    with assms lpj l show False
      by (auto simp: source_info_def bind_Inr_iff Let_def)
  qed
  with lpj lp show ?thesis by (simp add: leads_to_def)
qed

lemma to_partners_eq:
  "to_partners valuations q k ps = Inr srcs \<Longrightarrow>
     list_all2 (\<lambda>e s. edge_loyalty_program s = fst e \<and> describes (snd e) s)
       (filter (leads_to q) (map (\<lambda>p. (k, p)) ps)) srcs"
proof (induction ps arbitrary: srcs)
  case Nil
  then show ?case by simp
next
  case (Cons p ps)
  from Cons.prems obtain r rest where
    r: "source_info valuations q k p = Inr r" and rest: "to_partners valuations q k ps = Inr rest"
    and srcs: "srcs = (case r of None \<Rightarrow> rest | Some i \<Rightarrow> i # rest)"
    by (auto simp: bind_Inr_iff)
  note ih = Cons.IH[OF rest]
  show ?case
  proof (cases r)
    case None
    with r source_info_None have "\<not> leads_to q (k, p)" by blast
    with ih srcs None show ?thesis by simp
  next
    case (Some s)
    with r source_info_Some have "leads_to q (k, p) \<and> edge_loyalty_program s = k \<and> describes p s"
      by blast
    with ih srcs Some show ?thesis by simp
  qed
qed

lemma table_edges_Cons:
  "py_iter partners = Inr ps \<Longrightarrow>
     table_edges ((k, partners) # rest) = map (\<lambda>p. (k, p)) ps @ table_edges rest"
  by (simp add: table_edges_def)

lemma table_edges_mem:
  "(k, partners) \<in> set table \<Longrightarrow> py_iter partners = Inr ps \<Longrightarrow> p \<in> set ps \<Longrightarrow>
     (k, p) \<in> set (table_edges table)"
  by (force simp: table_edges_def)

lemma to_program_eq:
  "to_program valuations q table = Inr srcs \<Longrightarrow>
     list_all2 (\<lambda>e s. edge_loyalty_program s = fst e \<and> describes (snd e) s)
       (filter (leads_to q) (table_edges table)) srcs"
proof (induction table arbitrary: srcs)
  case Nil
  then show ?case by (simp add: table_edges_def)
next
  case (Cons kv table)
  obtain k partners where kv: "kv = (k, partners)" by (cases kv)
  from Cons.prems kv obtain ps a b where
    ps: "py_iter partners = Inr ps" and a: "to_partners valuations q k ps = Inr a"
    and b: "to_program valuations q table = Inr b" and srcs: "srcs = a @ b"
    by (auto simp: bind_Inr_iff)
  from to_partners_eq[OF a] Cons.IH[OF b] srcs kv table_edges_Cons[OF ps]
  show ?case by (simp add: list_all2_appendI)
qed

lemma from_program_Some:
  "from_program order valuations q table = Inr (Some (k, dests)) \<Longrightarrow>
     \<exists>pre partners post ps unsorted.
        table = pre @ (k, partners) # post
        \<and> (\<forall>kv\<in>set pre. \<not> contains q (lower (fst kv)))
        \<and> contains q (lower k)
        \<and> py_iter partners = Inr ps \<and> map_exn (dest_info valuations) ps = Inr unsorted
        \<and> list_sort_reverse order edge_valuation unsorted = Inr dests"
proof (induction table)
  case Nil
  then show ?case by simp
next
  case (Cons kv table)
  obtain k' partners where kv: "kv = (k', partners)" by (cases kv)
  show ?case
  proof (cases "contains q (lower k')")
    case True
    with Cons.prems kv obtain ps unsorted where
      "py_iter partners = Inr ps" "map_exn (dest_info valuations) ps = Inr unsorted"
      "k = k'" "list_sort_reverse order edge_valuation unsorted = Inr dests"
      by (auto simp: bind_Inr_iff)
    with True kv have "kv # table = [] @ (k, partners) # table
        \<and> (\<forall>kv\<in>set []. \<not> contains q (lower (fst kv)))
        \<and> contains q (lower k)
        \<and> py_iter partners = Inr ps \<and> map_exn (dest_info valuations) ps = Inr unsorted
        \<and> list_sort_reverse order edge_valuation unsorted = Inr dests"
      by simp
    then show ?thesis by blast
  next
    case False
    with Cons.prems kv have "from_program order valuations q table = Inr (Some (k, dests))" by simp
    from Cons.IH[OF this] obtain pre partners' post ps unsorted where
      t: "table = pre @ (k, partners') # post"
      and n: "\<forall>kv\<in>set pre. \<not> contains q (lower (fst kv))"
      and r: "contains q (lower k)" "py_iter partners' = Inr ps"
        "map_exn (dest_info valuations) ps = Inr unsorted"
        "list_sort_reverse order edge_valuation unsorted = Inr dests"
      by blast
    from t have "kv # table = (kv # pre) @ (k, partners') # post" by simp
    moreover from n False kv have "\<forall>kv\<in>set (kv # pre). \<not> contains q (lower (fst kv))" by simp
    ultimately show ?thesis using r by blast
  qed
qed

lemma lookup_from:
  "lookup_transfer_partners order transfer_data valuations program_name ''from'' = Inr (FromProgram k dests)
     \<longleftrightarrow> program_name \<noteq> [] \<and> length program_name \<le> 200
          \<and> from_program order valuations (lower program_name) transfer_data = Inr (Some (k, dests))"
  by (auto simp: lookup_transfer_partners_def Let_def caught_def split: sum.splits option.splits)

lemma lookup_to:
  "lookup_transfer_partners order transfer_data valuations program_name ''to'' = Inr (ToProgram dest v sources)
     \<longleftrightarrow> program_name \<noteq> [] \<and> length program_name \<le> 200 \<and> sources \<noteq> [] \<and> dest = program_name
          \<and> v = valuation_of valuations (normalize_key program_name)
          \<and> to_program valuations (lower program_name) transfer_data = Inr sources"
  by (auto simp: lookup_transfer_partners_def Let_def caught_def split: sum.splits option.splits)






text \<open>A kept edge whose \<^verbatim>\<open>Bonus\<close> is an int too large for a float ends the tool with an
  error: the subtraction \<^verbatim>\<open>bonus - 1.0\<close> raises.\<close>

lemma huge_bonus_raises:
  "get_transfer_bonuses no_order [(''Chase Ultimate Rewards'', JList [JObj [(''Bonus'', JInt (2 ^ 1024))]])] []
     = Inl (Raised OverflowError)"
  by code_simp

subsection \<open>Active bonuses\<close>




subsection \<open>Ranking of the lookup\<close>




subsection \<open>The bonus keys of the lookup\<close>

text \<open>
  C9, as amended. In both directions every edge of the result comes from an edge of the
  table; it carries \<^verbatim>\<open>bonus\<close> exactly when the raw \<^verbatim>\<open>Bonus\<close> of that edge is truthy
  (present and not empty, zero, false or null), and \<^verbatim>\<open>bonus_expiration\<close> exactly when
  it carries \<^verbatim>\<open>bonus\<close> and the raw \<^verbatim>\<open>bonus_expiration\<close> is truthy. The sentinel strings
  are non-empty, hence truthy: the lookup attaches them as they are.
\<close>

theorem bonus_keys_attached:
  "(lookup_transfer_partners order transfer_data valuations program_name ''from'' = Inr (FromProgram prog_key dests) \<longrightarrow>
      (\<forall>d\<in>set dests. \<exists>e\<in>set (table_edges transfer_data). fst e = prog_key
          \<and> field_or (snd e) ''Loyalty Program'' (JStr []) = JStr (edge_loyalty_program d)
          \<and> edge_bonus d = (if truthy (raw_bonus (snd e)) then Some (raw_bonus (snd e)) else None)
          \<and> edge_bonus_expiration d =
               (if truthy (raw_bonus (snd e)) \<and> truthy (raw_expiration (snd e))
                then Some (raw_expiration (snd e)) else None)))
   \<and> (lookup_transfer_partners order transfer_data valuations program_name ''to'' = Inr (ToProgram dest v sources) \<longrightarrow>
      (\<forall>s\<in>set sources. \<exists>e\<in>set (table_edges transfer_data). fst e = edge_loyalty_program s
          \<and> leads_to (lower program_name) e
          \<and> edge_bonus s = (if truthy (raw_bonus (snd e)) then Some (raw_bonus (snd e)) else None)
          \<and> edge_bonus_expiration s =
               (if truthy (raw_bonus (snd e)) \<and> truthy (raw_expiration (snd e))
                then Some (raw_expiration (snd e)) else None)))"
proof (intro conjI impI ballI)
  fix d
  assume a: "lookup_transfer_partners order transfer_data valuations program_name ''from'' = Inr (FromProgram prog_key dests)"
    and d: "d \<in> set dests"
  from a have "from_program order valuations (lower program_name) transfer_data = Inr (Some (prog_key, dests))"
    by (simp add: lookup_from)
  from from_program_Some[OF this] obtain pre partners post ps unsorted where
    u: "transfer_data = pre @ (prog_key, partners) # post" "py_iter partners = Inr ps"
       "map_exn (dest_info valuations) ps = Inr unsorted"
       "list_sort_reverse order edge_valuation unsorted = Inr dests"
    by blast
  from u(1) have mem: "(prog_key, partners) \<in> set transfer_data" by simp
  from d list_sort_reverse_set[OF u(4)] have "d \<in> set unsorted" by simp
  from list_all2_mem[OF dest_info_all2[OF u(3)] this] obtain p where p: "p \<in> set ps"
    "field_or p ''Loyalty Program'' (JStr []) = JStr (edge_loyalty_program d)" "describes p d"
    by blast
  from table_edges_mem[OF mem u(2) p(1)] have "(prog_key, p) \<in> set (table_edges transfer_data)" .
  moreover from p(3) have
    "edge_bonus d = (if truthy (raw_bonus p) then Some (raw_bonus p) else None)"
    "edge_bonus_expiration d = (if truthy (raw_bonus p) \<and> truthy (raw_expiration p) then Some (raw_expiration p) else None)"
    by (auto simp: describes_def bonus_keys_def split: if_splits)
  ultimately show "\<exists>e\<in>set (table_edges transfer_data). fst e = prog_key
          \<and> field_or (snd e) ''Loyalty Program'' (JStr []) = JStr (edge_loyalty_program d)
          \<and> edge_bonus d = (if truthy (raw_bonus (snd e)) then Some (raw_bonus (snd e)) else None)
          \<and> edge_bonus_expiration d =
               (if truthy (raw_bonus (snd e)) \<and> truthy (raw_expiration (snd e))
                then Some (raw_expiration (snd e)) else None)"
    using p(2) by (intro bexI[of _ "(prog_key, p)"]) simp_all
next
  fix s
  assume a: "lookup_transfer_partners order transfer_data valuations program_name ''to'' = Inr (ToProgram dest v sources)"
    and s: "s \<in> set sources"
  from a have "to_program valuations (lower program_name) transfer_data = Inr sources"
    by (simp add: lookup_to)
  from to_program_eq[OF this] s obtain e where
    e: "e \<in> set (filter (leads_to (lower program_name)) (table_edges transfer_data))"
       "edge_loyalty_program s = fst e" "describes (snd e) s"
    by (blast dest: list_all2_mem)
  from e(3) have
    "edge_bonus s = (if truthy (raw_bonus (snd e)) then Some (raw_bonus (snd e)) else None)"
    "edge_bonus_expiration s = (if truthy (raw_bonus (snd e)) \<and> truthy (raw_expiration (snd e))
                then Some (raw_expiration (snd e)) else None)"
    by (auto simp: describes_def bonus_keys_def split: if_splits)
  with e(1,2) show "\<exists>e\<in>set (table_edges transfer_data). fst e = edge_loyalty_program s
          \<and> leads_to (lower program_name) e
          \<and> edge_bonus s = (if truthy (raw_bonus (snd e)) then Some (raw_bonus (snd e)) else None)
          \<and> edge_bonus_expiration s =
               (if truthy (raw_bonus (snd e)) \<and> truthy (raw_expiration (snd e))
                then Some (raw_expiration (snd e)) else None)"
    by (intro bexI[of _ e]) simp_all
qed

theorem bonus_keys_attached_witness:
  "lookup_transfer_partners no_order sample_table sample_valuations ''Chase'' ''from''
      = Inr (FromProgram ''Chase Ultimate Rewards'' [hyatt_dest, united_dest, avios_dest])
   \<and> edge_bonus avios_dest = Some (JFloat 1.3)
   \<and> edge_bonus_expiration avios_dest = Some (JStr ''12/31/26'')
   \<and> raw_bonus avios_edge = JFloat 1.3
   \<and> raw_expiration avios_edge = JStr ''12/31/26''"
proof -
  have f: "lookup_transfer_partners no_order sample_table sample_valuations ''Chase'' ''from''
      = Inr (FromProgram ''Chase Ultimate Rewards'' [hyatt_dest, united_dest, avios_dest])"
    by code_simp
  note inst = bonus_keys_attached[where order = no_order and transfer_data = sample_table
      and valuations = sample_valuations
      and program_name = "''Chase''" and prog_key = "''Chase Ultimate Rewards''"
      and dests = "[hyatt_dest, united_dest, avios_dest]" and dest = "''united''" and v = "JFloat 1"
      and sources = "[chase_source, bilt_source]"]
  have m: "avios_dest \<in> set [hyatt_dest, united_dest, avios_dest]" by simp
  from inst f m obtain e where e: "e \<in> set (table_edges sample_table)"
    "field_or (snd e) ''Loyalty Program'' (JStr []) = JStr (edge_loyalty_program avios_dest)"
    "edge_bonus avios_dest = (if truthy (raw_bonus (snd e)) then Some (raw_bonus (snd e)) else None)"
    "edge_bonus_expiration avios_dest =
               (if truthy (raw_bonus (snd e)) \<and> truthy (raw_expiration (snd e))
                then Some (raw_expiration (snd e)) else None)"
    by blast
  have u: "\<forall>e\<in>set (table_edges sample_table).
      field_or (snd e) ''Loyalty Program'' (JStr []) = JStr (edge_loyalty_program avios_dest)
        \<longrightarrow> snd e = avios_edge"
    by code_simp
  from e(1,2) u have "snd e = avios_edge" by blast
  with e(3,4) have k: "edge_bonus avios_dest = (if truthy (raw_bonus avios_edge) then Some (raw_bonus avios_edge) else None)"
    "edge_bonus_expiration avios_dest =
               (if truthy (raw_bonus avios_edge) \<and> truthy (raw_expiration avios_edge)
                then Some (raw_expiration avios_edge) else None)"
    by simp_all
  have r: "raw_bonus avios_edge = JFloat 1.3" "raw_expiration avios_edge = JStr ''12/31/26''"
    by code_simp+
  from k r have "edge_bonus avios_dest = Some (JFloat 1.3)"
    "edge_bonus_expiration avios_dest = Some (JStr ''12/31/26'')"
    by simp_all
  with f r show ?thesis by blast
qed

text \<open>
  The claim C9 as stated fails on the sentinels: an edge whose \<^verbatim>\<open>Bonus\<close> is the
  string \<^verbatim>\<open>"None"\<close> is returned with the key \<^verbatim>\<open>bonus\<close> attached.
\<close>

theorem sentinel_bonus_counterexample:
  "lookup_transfer_partners no_order [(''Chase Ultimate Rewards'', JList [hyatt_edge])] sample_valuations ''Chase'' ''from''
      = Inr (FromProgram ''Chase Ultimate Rewards'' [hyatt_dest])
   \<and> dict_get hyatt_edge ''Bonus'' (JStr []) = Inr (JStr ''None'')
   \<and> edge_bonus hyatt_dest = Some (JStr ''None'')"
  by code_simp

end
